theory Spec2Isabelle
  imports Main
begin

section \<open>Python values shared by the modelled modules\<close>

text \<open>
  Exceptions are values: a function that may raise returns \<open>exn + 'a\<close>, with \<open>Inl\<close> for
  the raised exception. The messages of the \<open>ValueError\<close>s of \<open>schemas/storage.py\<close> are
  kept as a tag with the text that the message formats.
  A string is a list of characters with code points below 256 (Latin-1); Python
  strings with other characters are outside the model.
\<close>

datatype value_error =
    InvalidPath string
  | InvalidCategory string
  | InvalidYear string
  | InvalidMonth string
  | InvalidDay string
  | IntConversion string
  | AmbiguousTruthValue

datatype exn =
    ValueError value_error
  | IndexError
  | S3Error string
  | IOException string
  | CatalogException string
  | BinderException string
  | ConstraintException string
  | InvalidInputException string
  | ValidationError string
  | SynchronizationError exn

text \<open>
  \<open>str.isdigit()\<close>: non-empty and every character a digit. Below 256 the digits are the
  decimal digits \<open>0\<close> to \<open>9\<close> and the superscripts two, three and one (U+00B2, U+00B3,
  U+00B9); only the decimal digits are accepted by \<open>int\<close>.
\<close>

definition is_decimal :: "char \<Rightarrow> bool" where
  "is_decimal c \<longleftrightarrow> 48 \<le> (of_char c :: nat) \<and> (of_char c :: nat) \<le> 57"

definition is_digit :: "char \<Rightarrow> bool" where
  "is_digit c \<longleftrightarrow>
     is_decimal c \<or> (of_char c :: nat) = 178 \<or> (of_char c :: nat) = 179
       \<or> (of_char c :: nat) = 185"

definition isdigit :: "string \<Rightarrow> bool" where
  "isdigit s \<longleftrightarrow> s \<noteq> [] \<and> list_all is_digit s"

text \<open>
  \<open>int(s)\<close> for a string of digits; the source calls it only behind \<open>s.isdigit()\<close>. It
  raises \<open>ValueError\<close> when a digit is not decimal, and when there are more digits than
  the interpreter's limit for the conversion of strings to integers (4300 by default,
  which the repository does not change).
\<close>

definition max_str_digits :: nat where
  "max_str_digits = 4300"

definition digit_value :: "char \<Rightarrow> nat" where
  "digit_value c = of_char c - 48"

definition py_int :: "string \<Rightarrow> exn + nat" where
  "py_int s =
     (if s \<noteq> [] \<and> list_all is_decimal s \<and> length s \<le> max_str_digits
      then Inr (foldl (\<lambda>a c. 10 * a + digit_value c) 0 s)
      else Inl (ValueError (IntConversion s)))"

text \<open>\<open>s.split(sep)\<close> for a one-character separator: never an empty list.\<close>

fun py_split :: "char \<Rightarrow> string \<Rightarrow> string list" where
  "py_split sep [] = [[]]"
| "py_split sep (c # cs) =
     (if c = sep then [] # py_split sep cs
      else (case py_split sep cs of
              [] \<Rightarrow> [[c]]
            | p # ps \<Rightarrow> (c # p) # ps))"

text \<open>\<open>xs[1]\<close> raises \<open>IndexError\<close> on a list shorter than two.\<close>

fun index1 :: "'a list \<Rightarrow> exn + 'a" where
  "index1 (x # y # ys) = Inr y"
| "index1 xs = Inl IndexError"

text \<open>
  What \<open>seg.split("=")[1]\<close> returns when \<open>seg\<close> contains \<open>=\<close>: the text between
  the first \<open>=\<close> and the next one (or the end).
\<close>

definition kv_value :: "string \<Rightarrow> string" where
  "kv_value seg =
     takeWhile (\<lambda>c. c \<noteq> CHR ''='') (tl (dropWhile (\<lambda>c. c \<noteq> CHR ''='') seg))"

text \<open>\<open>str(n)\<close> and the format \<open>{n:02d}\<close> for a non-negative integer.\<close>

definition digit_char :: "nat \<Rightarrow> char" where
  "digit_char d = ''0123456789'' ! d"

fun str :: "nat \<Rightarrow> string" where
  "str n = (if n < 10 then [digit_char n] else str (n div 10) @ [digit_char (n mod 10)])"

declare str.simps [simp del]

definition format_02d :: "nat \<Rightarrow> string" where
  "format_02d n = replicate (2 - length (str n)) CHR ''0'' @ str n"

text \<open>
  \<open>s.lower()\<close> and \<open>s.replace(" ", "_")\<close>. Below 256 the capitals are \<open>A\<close> to \<open>Z\<close> and
  the letters from U+00C0 to U+00DE without the multiplication sign U+00D7; each has
  its small letter 32 places on.
\<close>

definition is_upper :: "char \<Rightarrow> bool" where
  "is_upper c \<longleftrightarrow>
     (65 \<le> (of_char c :: nat) \<and> (of_char c :: nat) \<le> 90)
     \<or> (192 \<le> (of_char c :: nat) \<and> (of_char c :: nat) \<le> 222
          \<and> (of_char c :: nat) \<noteq> 215)"

definition lower_char :: "char \<Rightarrow> char" where
  "lower_char c = (if is_upper c then char_of (of_char c + (32 :: nat)) else c)"

definition lower :: "string \<Rightarrow> string" where
  "lower s = map lower_char s"

definition replace_space :: "string \<Rightarrow> string" where
  "replace_space s = map (\<lambda>c. if c = CHR '' '' then CHR ''_'' else c) s"


section \<open>schemas/storage.py\<close>

datatype BucketName = RAW

datatype DataCategory = AVIAN_CASES

fun DataCategory_value :: "DataCategory \<Rightarrow> string" where
  "DataCategory_value AVIAN_CASES = ''avian_cases''"

text \<open>\<open>DataCategory(category_str)\<close>: the member with that value, or \<open>ValueError\<close>.\<close>

definition DataCategory_of :: "string \<Rightarrow> DataCategory option" where
  "DataCategory_of s = find (\<lambda>c. DataCategory_value c = s) [AVIAN_CASES]"

record datetime =
  year :: nat
  month :: nat
  day :: nat

record StorageKey =
  bucket :: BucketName
  category :: DataCategory
  source :: string
  year :: string
  month :: string
  day :: string
  filename :: string

text \<open>
  One check of \<open>__post_init__\<close> for month or day,
  \<open>not s.isdigit() or not (1 <= int(s) <= hi)\<close>: \<open>int(s)\<close> is evaluated only when
  \<open>s.isdigit()\<close> holds, and its \<open>ValueError\<close> leaves \<open>__post_init__\<close>.
\<close>

definition out_of_range :: "string \<Rightarrow> nat \<Rightarrow> exn + bool" where
  "out_of_range s hi =
     (if \<not> isdigit s then Inr True
      else case py_int s of
             Inl e \<Rightarrow> Inl e
           | Inr n \<Rightarrow> Inr (\<not> (1 \<le> n \<and> n \<le> hi)))"

text \<open>\<open>StorageKey.__post_init__\<close>: the three checks in the order of the source.\<close>

definition post_init :: "StorageKey \<Rightarrow> exn + StorageKey" where
  "post_init k =
     (if \<not> isdigit (StorageKey.year k) \<or> length (StorageKey.year k) \<noteq> 4
        then Inl (ValueError (InvalidYear (StorageKey.year k)))
      else
        case out_of_range (StorageKey.month k) 12 of
          Inl e \<Rightarrow> Inl e
        | Inr True \<Rightarrow> Inl (ValueError (InvalidMonth (StorageKey.month k)))
        | Inr False \<Rightarrow>
            (case out_of_range (StorageKey.day k) 31 of
               Inl e \<Rightarrow> Inl e
             | Inr True \<Rightarrow> Inl (ValueError (InvalidDay (StorageKey.day k)))
             | Inr False \<Rightarrow> Inr k))"

text \<open>The dataclass constructor: the fields are stored, then \<open>__post_init__\<close> runs.\<close>

definition StorageKey_init ::
  "BucketName \<Rightarrow> DataCategory \<Rightarrow> string \<Rightarrow> string \<Rightarrow> string \<Rightarrow> string \<Rightarrow> string
     \<Rightarrow> exn + StorageKey" where
  "StorageKey_init b c s y m d f =
     post_init \<lparr>bucket = b, category = c, source = s, year = y, month = m, day = d,
                filename = f\<rparr>"

definition full_path :: "StorageKey \<Rightarrow> string" where
  "full_path k =
     DataCategory_value (category k) @ ''/'' @ source k
       @ ''/year='' @ StorageKey.year k
       @ ''/month='' @ StorageKey.month k
       @ ''/day='' @ StorageKey.day k
       @ ''/'' @ filename k"

text \<open>
  \<open>StorageKey.from_path\<close>. The three \<open>split("=")[1]\<close> are evaluated before the category
  is looked up, so a segment without \<open>=\<close> raises \<open>IndexError\<close> first.
\<close>

definition from_path :: "BucketName \<Rightarrow> string \<Rightarrow> exn + StorageKey" where
  "from_path b path =
     (let parts = py_split CHR ''/'' path in
      if length parts < 6 then Inl (ValueError (InvalidPath path))
      else
        let category_str = parts ! 0;
            src = parts ! 1
        in
        case index1 (py_split CHR ''='' (parts ! 2)) of
          Inl e \<Rightarrow> Inl e
        | Inr y \<Rightarrow>
        (case index1 (py_split CHR ''='' (parts ! 3)) of
          Inl e \<Rightarrow> Inl e
        | Inr m \<Rightarrow>
        (case index1 (py_split CHR ''='' (parts ! 4)) of
          Inl e \<Rightarrow> Inl e
        | Inr d \<Rightarrow>
        (let fname = parts ! 5 in
         case DataCategory_of category_str of
           None \<Rightarrow> Inl (ValueError (InvalidCategory category_str))
         | Some c \<Rightarrow> StorageKey_init b c src y m d fname))))"


section \<open>schemas/models/h5n1.py\<close>

text \<open>
  Of \<open>AvianFluCase\<close>, \<open>to_storage_key\<close> reads \<open>detection_date\<close> and
  \<open>metadata.source\<close>.
\<close>

record Metadata =
  source :: string

record AvianFluCase =
  case_id :: string
  detection_date :: datetime
  metadata :: Metadata

definition to_storage_key :: "AvianFluCase \<Rightarrow> string \<Rightarrow> exn + StorageKey" where
  "to_storage_key self fname =
     StorageKey_init RAW AVIAN_CASES
       (replace_space (lower (Metadata.source (metadata self))))
       (str (datetime.year (detection_date self)))
       (format_02d (datetime.month (detection_date self)))
       (format_02d (datetime.day (detection_date self)))
       fname"

text \<open>
  The date condition of the data model, in its own terms: a string is a numeral when it
  is not empty and each of its characters is one of the ten characters \<open>0123456789\<close>;
  its number is read by place value. A date is valid when the year is a numeral of
  four characters and month and day are numerals of at most 4300 characters with
  numbers from 1 to 12 and from 1 to 31.
\<close>

definition numeral_string :: "string \<Rightarrow> bool" where
  "numeral_string s \<longleftrightarrow> s \<noteq> [] \<and> list_all (\<lambda>c. c \<in> set ''0123456789'') s"

definition digit_index :: "char \<Rightarrow> nat" where
  "digit_index c = length (takeWhile (\<lambda>d. d \<noteq> c) ''0123456789'')"

fun number_of :: "string \<Rightarrow> nat" where
  "number_of [] = 0"
| "number_of (c # cs) = digit_index c * 10 ^ length cs + number_of cs"

definition valid_date :: "string \<Rightarrow> string \<Rightarrow> string \<Rightarrow> bool" where
  "valid_date y m d \<longleftrightarrow>
     (numeral_string y \<and> length y = 4)
     \<and> (numeral_string m \<and> length m \<le> 4300 \<and> 1 \<le> number_of m \<and> number_of m \<le> 12)
     \<and> (numeral_string d \<and> length d \<le> 4300 \<and> 1 \<le> number_of d \<and> number_of d \<le> 31)"

text \<open>The three digits below 256 that are not decimal: the superscripts.\<close>

definition superscript_digits :: "char set" where
  "superscript_digits = {CHR 0xB2, CHR 0xB3, CHR 0xB9}"

section \<open>src/schemas/storage.py, the older copy of schemas/storage.py\<close>

text \<open>
  The repository holds an older copy of the module, used by
  \<open>src/storage/minio_client.py\<close>. Its enums have two members each, and its \<open>StorageKey\<close>
  has the same fields and no \<open>__post_init__\<close>: the constructor stores the fields.
\<close>

datatype BucketName_legacy = RAW_legacy | PROCESSED_legacy

datatype DataCategory_legacy = AVIAN_CASES_legacy | SURVEILLANCE_legacy

record StorageKey_legacy =
  bucket_legacy :: BucketName_legacy
  category_legacy :: DataCategory_legacy
  source_legacy :: string
  year_legacy :: string
  month_legacy :: string
  day_legacy :: string
  filename_legacy :: string

definition StorageKey_legacy_init ::
  "BucketName_legacy \<Rightarrow> DataCategory_legacy \<Rightarrow> string \<Rightarrow> string \<Rightarrow> string \<Rightarrow> string
     \<Rightarrow> string \<Rightarrow> exn + StorageKey_legacy" where
  "StorageKey_legacy_init b c s y m d f =
     Inr \<lparr>bucket_legacy = b, category_legacy = c, source_legacy = s, year_legacy = y,
          month_legacy = m, day_legacy = d, filename_legacy = f\<rparr>"


section \<open>Notions used in the statements\<close>

text \<open>The \<open>/\<close>-separated segments of a path, \<open>path.split("/")\<close>.\<close>

definition segments :: "string \<Rightarrow> string list" where
  "segments path = py_split CHR ''/'' path"

text \<open>A month of 4301 decimal digits: 4299 zeros before \<open>12\<close>.\<close>

definition long_month :: string where
  "long_month = replicate 4299 CHR ''0'' @ ''12''"

section \<open>Tabular values: pandas DataFrames and DuckDB tables\<close>

text \<open>
  A cell is a value or missing (\<open>NaN\<close>/\<open>None\<close> in pandas, \<open>NULL\<close> in SQL). A DataFrame has
  named columns and rows with one cell per column.
\<close>

datatype cell = NULL | Val string

type_synonym colname = string

type_synonym row = "cell list"

record DataFrame =
  df_columns :: "colname list"
  df_rows :: "row list"

text \<open>\<open>df.empty\<close>: some axis has length zero.\<close>

definition df_empty :: "DataFrame \<Rightarrow> bool" where
  "df_empty df \<longleftrightarrow> df_columns df = [] \<or> df_rows df = []"

text \<open>\<open>pd.DataFrame()\<close>.\<close>

definition empty_DataFrame :: DataFrame where
  "empty_DataFrame = \<lparr>df_columns = [], df_rows = []\<rparr>"

text \<open>The cell of a row under a column name; \<open>row.to_dict()\<close> is \<open>zip cols r\<close>.\<close>

definition cell_of :: "colname list \<Rightarrow> row \<Rightarrow> colname \<Rightarrow> cell" where
  "cell_of cols r c = (case map_of (zip cols r) c of Some v \<Rightarrow> v | None \<Rightarrow> NULL)"

text \<open>\<open>df[target_columns]\<close>, used when every target column is a column of \<open>df\<close>.\<close>

definition select_columns :: "DataFrame \<Rightarrow> colname list \<Rightarrow> DataFrame" where
  "select_columns df cs =
     \<lparr>df_columns = cs, df_rows = map (\<lambda>r. map (cell_of (df_columns df) r) cs) (df_rows df)\<rparr>"


section \<open>connectors/data/transformer.py\<close>










section \<open>The DuckDB connection\<close>

text \<open>
  The engine is outside the repository; the statements that \<open>duck_db.py\<close> sends are
  interpreted on a catalogue of tables and temporary tables. A table is what
  \<open>PRAGMA table_info\<close> reports of it (the name and the \<open>pk\<close> flag of each column) and its
  rows, one cell per column.
\<close>

record Table =
  table_info :: "(colname \<times> bool) list"
  table_rows :: "row list"

record Conn =
  tables :: "string \<rightharpoonup> Table"
  temp_tables :: "string \<rightharpoonup> DataFrame"

text \<open>
  Every \<open>conn.execute\<close> may also fail for reasons outside the statement (I/O, a closed
  connection). The call sites are named, and a fault plan says which of them fail.
\<close>

datatype site =
    AtCreateTemp | AtCountBefore | AtPrimaryKey | AtTableColumns | AtInsert | AtDropTemp
  | AtCountAfter

definition execute :: "(site \<Rightarrow> exn option) \<Rightarrow> site \<Rightarrow> exn + 'a \<Rightarrow> exn + 'a" where
  "execute fault s r = (case fault s of Some e \<Rightarrow> Inl e | None \<Rightarrow> r)"

definition column_names :: "Table \<Rightarrow> colname list" where
  "column_names t = map fst (table_info t)"

text \<open>\<open>PRAGMA table_info(table)\<close>\<close>

definition pragma_table_info :: "Conn \<Rightarrow> string \<Rightarrow> exn + (colname \<times> bool) list" where
  "pragma_table_info c table =
     (case tables c table of
        None \<Rightarrow> Inl (CatalogException table)
      | Some t \<Rightarrow> Inr (table_info t))"

text \<open>\<open>SELECT COUNT(*) FROM table\<close>\<close>

definition select_count :: "Conn \<Rightarrow> string \<Rightarrow> exn + nat" where
  "select_count c table =
     (case tables c table of
        None \<Rightarrow> Inl (CatalogException table)
      | Some t \<Rightarrow> Inr (length (table_rows t)))"

text \<open>
  \<open>CREATE TEMPORARY TABLE temp AS SELECT * FROM df\<close>. The name \<open>df\<close> is no table: the
  engine looks for a Python variable of that name (its replacement scan), and the
  argument is what it finds, if anything.
\<close>

definition create_temporary_table ::
  "Conn \<Rightarrow> string \<Rightarrow> DataFrame option \<Rightarrow> exn + Conn" where
  "create_temporary_table c temp found =
     (case found of
        None \<Rightarrow> Inl (CatalogException ''df'')
      | Some df \<Rightarrow>
          if df_columns df = [] then Inl (InvalidInputException ''df'')
          else if temp_tables c temp \<noteq> None then Inl (CatalogException temp)
          else Inr (c\<lparr>temp_tables := (temp_tables c)(temp \<mapsto> df)\<rparr>))"

text \<open>\<open>DROP TABLE temp\<close>\<close>

definition drop_table :: "Conn \<Rightarrow> string \<Rightarrow> exn + Conn" where
  "drop_table c temp =
     (if temp_tables c temp = None then Inl (CatalogException temp)
      else Inr (c\<lparr>temp_tables := (temp_tables c)(temp := None)\<rparr>))"

text \<open>
  Name resolution of a column reference in a \<open>SELECT\<close> list. The scope is the list of
  the relations of the \<open>FROM\<close> clause with their columns. A qualified reference names
  its relation; an unqualified one must be a column of exactly one relation of the scope,
  and is rejected as ambiguous when two relations have it.
\<close>

definition resolve_column :: "(colname list) list \<Rightarrow> colname \<Rightarrow> exn + nat" where
  "resolve_column scope c =
     (case filter (\<lambda>i. c \<in> set (scope ! i)) [0 ..< length scope] of
        [] \<Rightarrow> Inl (BinderException c)
      | [i] \<Rightarrow> Inr i
      | _ \<Rightarrow> Inl (BinderException c))"

fun resolve_columns :: "(colname list) list \<Rightarrow> colname list \<Rightarrow> exn + nat list" where
  "resolve_columns scope [] = Inr []"
| "resolve_columns scope (c # cs) =
     (case resolve_column scope c of
        Inl e \<Rightarrow> Inl e
      | Inr i \<Rightarrow>
          (case resolve_columns scope cs of
             Inl e \<Rightarrow> Inl e
           | Inr is \<Rightarrow> Inr (i # is)))"

text \<open>
  The primary-key constraint: the key of a row is the list of its cells in the flagged
  columns; no key cell is \<open>NULL\<close>, and no two rows of the table have the same key.
\<close>

definition key_of :: "Table \<Rightarrow> row \<Rightarrow> cell list" where
  "key_of t r = map snd (filter (\<lambda>(flag, v). flag) (zip (map snd (table_info t)) r))"

definition has_primary_key :: "Table \<Rightarrow> bool" where
  "has_primary_key t \<longleftrightarrow> list_ex snd (table_info t)"

definition constraint_ok :: "Table \<Rightarrow> row list \<Rightarrow> bool" where
  "constraint_ok t rs \<longleftrightarrow>
     (has_primary_key t \<longrightarrow>
        list_all (\<lambda>r. NULL \<notin> set (key_of t r)) rs \<and> distinct (map (key_of t) rs))"

text \<open>Appending rows to a table: all of them or, on a violated constraint, none.\<close>

definition insert_rows :: "Conn \<Rightarrow> string \<Rightarrow> Table \<Rightarrow> row list \<Rightarrow> exn + Conn" where
  "insert_rows c table t new =
     (if constraint_ok t (table_rows t @ new)
      then Inr (c\<lparr>tables := (tables c)(table \<mapsto> t\<lparr>table_rows := table_rows t @ new\<rparr>)\<rparr>)
      else Inl (ConstraintException table))"

text \<open>
  \<open>INSERT INTO table (cols) SELECT cols FROM temp\<close>: each column of \<open>cols\<close> must be a
  column of \<open>temp\<close>; further columns of \<open>temp\<close> are not selected.
\<close>

definition insert_select :: "Conn \<Rightarrow> string \<Rightarrow> colname list \<Rightarrow> string \<Rightarrow> exn + Conn" where
  "insert_select c table cols temp =
     (case temp_tables c temp of
        None \<Rightarrow> Inl (CatalogException temp)
      | Some s \<Rightarrow>
     (case tables c table of
        None \<Rightarrow> Inl (CatalogException table)
      | Some t \<Rightarrow>
     (case resolve_columns [df_columns s] cols of
        Inl e \<Rightarrow> Inl e
      | Inr is \<Rightarrow>
          insert_rows c table t
            (map (\<lambda>r. map (cell_of (df_columns s) r) cols) (df_rows s)))))"

text \<open>
  \<open>INSERT INTO table (cols) SELECT cols FROM temp t LEFT JOIN table e ON t.pk = e.pk
  WHERE e.pk IS NULL\<close>. The two qualified references need \<open>pk\<close> in both relations; the
  columns of the \<open>SELECT\<close> list are unqualified and are resolved in the scope of \<open>t\<close> and
  \<open>e\<close>. A row of \<open>t\<close> is joined with the rows of \<open>e\<close> of equal, non-\<open>NULL\<close> key, or, when
  there is none, with a row of \<open>NULL\<close>s, and only the latter pass the \<open>WHERE\<close> clause. A
  selected column is read from the relation it was resolved to.
\<close>

definition anti_join_rows ::
  "colname list \<Rightarrow> row list \<Rightarrow> colname list \<Rightarrow> row list \<Rightarrow> colname \<Rightarrow> row list" where
  "anti_join_rows tcols trows ecols erows pk =
     filter (\<lambda>r. cell_of tcols r pk = NULL
                  \<or> \<not> list_ex (\<lambda>er. cell_of ecols er pk = cell_of tcols r pk) erows) trows"

definition insert_select_anti_join ::
  "Conn \<Rightarrow> string \<Rightarrow> colname list \<Rightarrow> string \<Rightarrow> colname \<Rightarrow> exn + Conn" where
  "insert_select_anti_join c table cols temp pk =
     (case temp_tables c temp of
        None \<Rightarrow> Inl (CatalogException temp)
      | Some s \<Rightarrow>
     (case tables c table of
        None \<Rightarrow> Inl (CatalogException table)
      | Some t \<Rightarrow>
          if pk \<notin> set (df_columns s) \<or> pk \<notin> set (column_names t)
          then Inl (BinderException pk)
          else
            (case resolve_columns [df_columns s, column_names t] cols of
               Inl e \<Rightarrow> Inl e
             | Inr is \<Rightarrow>
                 insert_rows c table t
                   (map (\<lambda>r. map (\<lambda>(i, col). if i = 0 then cell_of (df_columns s) r col else NULL)
                                (zip is cols))
                      (anti_join_rows (df_columns s) (df_rows s) (column_names t)
                         (table_rows t) pk)))))"

section \<open>The environment of the clients\<close>

text \<open>
  What the modelled functions take from outside the repository: the fault plan of the
  connection, the clock (\<open>datetime.now()\<close> in the format of the temporary table's name),
  whether the engine's replacement scan looks through all calling frames or only the
  frame that calls \<open>execute\<close>, the object store's listing of a bucket under a prefix, and
  the rows that \<open>read_parquet\<close> returns for a list of URIs.
\<close>

record Env =
  fault :: "site \<Rightarrow> exn option"
  now :: string
  scan_all_frames :: bool
  list_objects :: "string \<Rightarrow> string \<Rightarrow> exn + string list"
  read_parquet :: "string list \<Rightarrow> exn + DataFrame"

text \<open>
  A Python argument of \<open>insert_dataframe\<close>'s second parameter, and its truth value:
  \<open>bool(df)\<close> of a pandas DataFrame raises \<open>ValueError\<close>.
\<close>

datatype pyval = PyBool bool | PyDataFrame DataFrame

fun py_truth :: "pyval \<Rightarrow> exn + bool" where
  "py_truth (PyBool b) = Inr b"
| "py_truth (PyDataFrame df) = Inl (ValueError AmbiguousTruthValue)"


section \<open>connectors/data/clients/duck_db.py\<close>

record DuckDBClient =
  read_only :: bool
  conn :: Conn

text \<open>\<open>get_table_columns\<close>: an exception is logged and raised again.\<close>

definition get_table_columns :: "Env \<Rightarrow> Conn \<Rightarrow> string \<Rightarrow> exn + colname list" where
  "get_table_columns env c table =
     (case execute (fault env) AtTableColumns (pragma_table_info c table) of
        Inl e \<Rightarrow> Inl e
      | Inr info \<Rightarrow> Inr (map fst info))"

text \<open>
  \<open>_get_primary_key\<close>: the name of the first column whose \<open>pk\<close> flag is set; an
  exception is logged and \<open>None\<close> is returned.
\<close>

definition get_primary_key :: "Env \<Rightarrow> Conn \<Rightarrow> string \<Rightarrow> colname option" where
  "get_primary_key env c table =
     (case execute (fault env) AtPrimaryKey (pragma_table_info c table) of
        Inl e \<Rightarrow> None
      | Inr info \<Rightarrow>
          (case filter snd info of
             [] \<Rightarrow> None
           | (n, flag) # rest \<Rightarrow> Some n))"

text \<open>
  The \<open>if avoid_duplicates and (primary_key := ...)\<close> statement of \<open>insert_dataframe\<close>
  with its two \<open>INSERT\<close>s. The truth value of \<open>avoid_duplicates\<close> is taken first; the
  primary key is looked up only when it is true; an empty name is false. The column
  list is read with \<open>get_table_columns\<close> (twice in the source, for the two places of
  the statement text) before the statement is executed.
\<close>

definition insert_statement ::
  "Env \<Rightarrow> Conn \<Rightarrow> string \<Rightarrow> string \<Rightarrow> pyval \<Rightarrow> exn + Conn" where
  "insert_statement env c table temp_table avoid_duplicates =
     (case py_truth avoid_duplicates of
        Inl e \<Rightarrow> Inl e
      | Inr flag \<Rightarrow>
          (case (if flag then get_primary_key env c table else None) of
             Some primary_key \<Rightarrow>
               if primary_key \<noteq> [] then
                 (case get_table_columns env c table of
                    Inl e \<Rightarrow> Inl e
                  | Inr cols \<Rightarrow>
                      execute (fault env) AtInsert
                        (insert_select_anti_join c table cols temp_table primary_key))
               else
                 (case get_table_columns env c table of
                    Inl e \<Rightarrow> Inl e
                  | Inr cols \<Rightarrow>
                      execute (fault env) AtInsert (insert_select c table cols temp_table))
           | None \<Rightarrow>
               (case get_table_columns env c table of
                  Inl e \<Rightarrow> Inl e
                | Inr cols \<Rightarrow>
                    execute (fault env) AtInsert (insert_select c table cols temp_table))))"

text \<open>
  \<open>insert_dataframe(self, table_name, avoid_duplicates=True)\<close>. The function has no
  parameter \<open>df\<close>: the \<open>df\<close> of its first statement is whatever the engine finds under
  that name, which is the \<open>df\<close> of a calling frame (\<open>caller_df\<close>) when the engine scans
  all frames, and nothing otherwise. The client is returned with the connection as the
  executed statements left it; an exception is logged and raised again.
\<close>

definition insert_dataframe ::
  "Env \<Rightarrow> DuckDBClient \<Rightarrow> string \<Rightarrow> pyval \<Rightarrow> DataFrame option
     \<Rightarrow> (exn + int) \<times> DuckDBClient" where
  "insert_dataframe env self table avoid_duplicates caller_df =
     (if read_only self then (Inr 0, self)
      else
        let temp_table = ''temp_insert_'' @ now env;
            found = (if scan_all_frames env then caller_df else None)
        in
        case execute (fault env) AtCreateTemp
               (create_temporary_table (conn self) temp_table found) of
          Inl e \<Rightarrow> (Inl e, self)
        | Inr c1 \<Rightarrow>
        (case execute (fault env) AtCountBefore (select_count c1 table) of
          Inl e \<Rightarrow> (Inl e, self\<lparr>conn := c1\<rparr>)
        | Inr count_before \<Rightarrow>
        (case insert_statement env c1 table temp_table avoid_duplicates of
          Inl e \<Rightarrow> (Inl e, self\<lparr>conn := c1\<rparr>)
        | Inr c2 \<Rightarrow>
        (case execute (fault env) AtDropTemp (drop_table c2 temp_table) of
          Inl e \<Rightarrow> (Inl e, self\<lparr>conn := c2\<rparr>)
        | Inr c3 \<Rightarrow>
        (case execute (fault env) AtCountAfter (select_count c3 table) of
          Inl e \<Rightarrow> (Inl e, self\<lparr>conn := c3\<rparr>)
        | Inr count_after \<Rightarrow>
            (Inr (int count_after - int count_before), self\<lparr>conn := c3\<rparr>))))))"

text \<open>
  \<open>read_external_parquet(uris, target_table)\<close>, called by the orchestrator with a target
  table.
\<close>

definition read_external_parquet ::
  "Env \<Rightarrow> Conn \<Rightarrow> string list \<Rightarrow> string \<Rightarrow> exn + DataFrame" where
  "read_external_parquet env c uris target_table =
     (if uris = [] then Inr empty_DataFrame
      else
        case read_parquet env uris of
          Inl e \<Rightarrow> Inl e
        | Inr df \<Rightarrow>
            (case get_table_columns env c target_table of
               Inl e \<Rightarrow> Inl e
             | Inr target_columns \<Rightarrow>
                 Inr (if set target_columns \<subseteq> set (df_columns df)
                      then select_columns df target_columns else df)))"


section \<open>connectors/data/clients/minio.py\<close>

definition endswith :: "string \<Rightarrow> string \<Rightarrow> bool" where
  "endswith s suffix \<longleftrightarrow>
     length suffix \<le> length s \<and> drop (length s - length suffix) s = suffix"

definition list_parquet_files :: "Env \<Rightarrow> string \<Rightarrow> string \<Rightarrow> exn + string list" where
  "list_parquet_files env bucket_name prefix =
     (case list_objects env bucket_name prefix of
        Inl e \<Rightarrow> Inl e
      | Inr all_files \<Rightarrow> Inr (filter (\<lambda>f. endswith f ''.parquet'') all_files))"

definition get_parquet_uris :: "Env \<Rightarrow> string \<Rightarrow> string \<Rightarrow> exn + string list" where
  "get_parquet_uris env bucket_name prefix =
     (case list_parquet_files env bucket_name prefix of
        Inl e \<Rightarrow> Inl e
      | Inr parquet_paths \<Rightarrow>
          Inr (map (\<lambda>path. ''s3://'' @ bucket_name @ ''/'' @ path) parquet_paths))"


section \<open>connectors/data/orchestrator.py\<close>

text \<open>
  \<open>load_storage_to_database\<close>. Its call \<open>self.db.insert_dataframe(table_name, df)\<close>
  passes the DataFrame in the second position, which is the parameter
  \<open>avoid_duplicates\<close>; \<open>df\<close> is a local variable of the calling frame.
\<close>

definition load_storage_to_database ::
  "Env \<Rightarrow> DuckDBClient \<Rightarrow> string \<Rightarrow> string \<Rightarrow> string \<Rightarrow> (exn + int) \<times> DuckDBClient" where
  "load_storage_to_database env db bucket_name prefix table_name =
     (case get_parquet_uris env bucket_name prefix of
        Inl e \<Rightarrow> (Inl e, db)
      | Inr parquet_uris \<Rightarrow>
          if parquet_uris = [] then (Inr 0, db)
          else
            (case read_external_parquet env (conn db) parquet_uris table_name of
               Inl e \<Rightarrow> (Inl e, db)
             | Inr df \<Rightarrow>
                 if \<not> df_empty df
                 then insert_dataframe env db table_name (PyDataFrame df) (Some df)
                 else (Inr 0, db)))"

section \<open>An example: a table with a primary key and three staged rows\<close>

text \<open>
  The table \<open>avian_cases\<close> has the primary key \<open>case_id\<close> and holds one row; the staged
  file holds three rows, one of them with the key of the row in the table. The client
  is writable, no statement fails for outside reasons, and the engine scans all frames.
\<close>

definition example_table :: Table where
  "example_table =
     \<lparr>table_info = [(''case_id'', True), (''species'', False)],
      table_rows = [[Val ''c1'', Val ''hen'']]\<rparr>"

definition example_client :: DuckDBClient where
  "example_client =
     \<lparr>read_only = False,
      conn = \<lparr>tables = [''avian_cases'' \<mapsto> example_table], temp_tables = Map.empty\<rparr>\<rparr>"

definition staged_rows :: DataFrame where
  "staged_rows =
     \<lparr>df_columns = [''case_id'', ''species''],
      df_rows = [[Val ''c1'', Val ''hen''], [Val ''c2'', Val ''duck''],
                 [Val ''c3'', Val ''swan'']]\<rparr>"

definition example_env :: Env where
  "example_env =
     \<lparr>fault = (\<lambda>s. None), now = ''20230515120000'', scan_all_frames = True,
      list_objects = (\<lambda>b p. Inr [p @ ''/data_1.parquet'', p @ ''/notes.txt'']),
      read_parquet = (\<lambda>uris. Inr staged_rows)\<rparr>"

text \<open>
  Three variants of the example: the listing of the bucket fails, the parquet files
  cannot be read, and the connection fails when the columns of the table are read.
\<close>

definition failing_env :: Env where
  "failing_env = example_env\<lparr>list_objects := (\<lambda>b p. Inl (S3Error ''NoSuchBucket''))\<rparr>"

definition unreadable_env :: Env where
  "unreadable_env = example_env\<lparr>read_parquet := (\<lambda>uris. Inl (IOException ''HTTP 403''))\<rparr>"

definition closed_env :: Env where
  "closed_env =
     example_env\<lparr>fault := (\<lambda>s. if s = AtTableColumns then Some (IOException ''closed'') else None)\<rparr>"

text \<open>
  Two staged rows with keys that the table does not hold, and the example with one
  statement of the connection failing.
\<close>

definition new_rows :: DataFrame where
  "new_rows =
     \<lparr>df_columns = [''case_id'', ''species''],
      df_rows = [[Val ''c2'', Val ''duck''], [Val ''c3'', Val ''swan'']]\<rparr>"

definition faulty_env :: "site \<Rightarrow> exn \<Rightarrow> Env" where
  "faulty_env s e = example_env\<lparr>fault := (\<lambda>s'. if s' = s then Some e else None)\<rparr>"

text \<open>
  The connection of the example after the temporary table is created from the two new
  rows, after they are appended to the table, and after the temporary table is dropped.
\<close>

definition staged_conn :: Conn where
  "staged_conn =
     (conn example_client)\<lparr>temp_tables :=
        (temp_tables (conn example_client))(''temp_insert_20230515120000'' \<mapsto> new_rows)\<rparr>"

definition inserted_conn :: Conn where
  "inserted_conn =
     staged_conn\<lparr>tables :=
        (tables staged_conn)(''avian_cases'' \<mapsto>
           example_table\<lparr>table_rows := table_rows example_table @ df_rows new_rows\<rparr>)\<rparr>"

definition final_conn :: Conn where
  "final_conn =
     inserted_conn\<lparr>temp_tables :=
        (temp_tables inserted_conn)(''temp_insert_20230515120000'' := None)\<rparr>"


section \<open>Strings: splitting\<close>

lemma py_split_not_Nil: "py_split sep s \<noteq> []"
  by (induction s) (auto split: list.splits)

lemma py_split_no_sep: "sep \<notin> set s \<Longrightarrow> py_split sep s = [s]"
  by (induction s) auto

lemma py_split_append:
  "sep \<notin> set a \<Longrightarrow> py_split sep (a @ sep # r) = a # py_split sep r"
  by (induction a) (auto split: list.splits simp: py_split_not_Nil)

lemma py_split_hd: "hd (py_split sep s) = takeWhile (\<lambda>c. c \<noteq> sep) s"
  by (induction s) (auto split: list.splits simp: py_split_not_Nil)

lemma py_split_decomp:
  "sep \<in> set s \<Longrightarrow>
   py_split sep s = takeWhile (\<lambda>c. c \<noteq> sep) s # py_split sep (tl (dropWhile (\<lambda>c. c \<noteq> sep) s))"
  by (induction s) (auto split: list.splits simp: py_split_not_Nil)

lemma index1_split_eq:
  "index1 (py_split CHR ''='' seg) =
     (if CHR ''='' \<in> set seg then Inr (kv_value seg) else Inl IndexError)"
proof (cases "CHR ''='' \<in> set seg")
  case True
  obtain p ps where ps: "py_split CHR ''='' (tl (dropWhile (\<lambda>c. c \<noteq> CHR ''='') seg)) = p # ps"
    using py_split_not_Nil [of "CHR ''=''"] by (cases "py_split CHR ''='' (tl (dropWhile (\<lambda>c. c \<noteq> CHR ''='') seg))") auto
  have "p = kv_value seg"
    using py_split_hd [of "CHR ''=''" "tl (dropWhile (\<lambda>c. c \<noteq> CHR ''='') seg)"] ps
    by (simp add: kv_value_def)
  with True ps show ?thesis by (simp add: py_split_decomp)
next
  case False
  then show ?thesis by (simp add: py_split_no_sep)
qed

lemma py_split_step:
  "sep \<notin> set a \<Longrightarrow> py_split sep r = rs \<Longrightarrow> py_split sep (a @ sep # r) = a # rs"
  using py_split_append by blast

lemma is_digit_no_slash: "is_digit c \<Longrightarrow> c \<noteq> CHR ''/''"
  by (auto simp: is_digit_def is_decimal_def)

lemma is_digit_no_eq: "is_digit c \<Longrightarrow> c \<noteq> CHR ''=''"
  by (auto simp: is_digit_def is_decimal_def)

lemma isdigit_no_slash: "isdigit s \<Longrightarrow> CHR ''/'' \<notin> set s"
  using is_digit_no_slash by (auto simp: isdigit_def list_all_iff)

lemma isdigit_no_eq: "isdigit s \<Longrightarrow> CHR ''='' \<notin> set s"
  using is_digit_no_eq by (auto simp: isdigit_def list_all_iff)

lemma post_init_Inr:
  "post_init k = Inr k' \<Longrightarrow>
   k' = k \<and> isdigit (StorageKey.year k) \<and> isdigit (StorageKey.month k) \<and> isdigit (StorageKey.day k)"
  unfolding post_init_def out_of_range_def
  by (simp split: if_splits sum.splits bool.splits)

lemma DataCategory_value_no_slash: "CHR ''/'' \<notin> set (DataCategory_value c)"
  by (cases c) simp

lemma DataCategory_of_value: "DataCategory_of (DataCategory_value c) = Some c"
  by (cases c) (simp add: DataCategory_of_def)

lemma key_no_slash:
  "isdigit s \<Longrightarrow> CHR ''/'' \<notin> set key \<Longrightarrow> CHR ''/'' \<notin> set (key @ s)"
  using isdigit_no_slash by simp

lemma full_path_unfold:
  "full_path k = DataCategory_value (category k) @ CHR ''/'' #
             StorageKey.source k @ CHR ''/'' #
             (''year='' @ StorageKey.year k) @ CHR ''/'' #
             (''month='' @ StorageKey.month k) @ CHR ''/'' #
             (''day='' @ StorageKey.day k) @ CHR ''/'' # filename k"
  by (simp add: full_path_def)

lemma split_full_path:
  assumes "isdigit (StorageKey.year k)" "isdigit (StorageKey.month k)" "isdigit (StorageKey.day k)"
    "CHR ''/'' \<notin> set (StorageKey.source k)" "CHR ''/'' \<notin> set (filename k)"
  shows "py_split CHR ''/'' (full_path k) =
     [DataCategory_value (category k), StorageKey.source k, ''year='' @ StorageKey.year k,
      ''month='' @ StorageKey.month k, ''day='' @ StorageKey.day k, filename k]"
proof -
  have y: "CHR ''/'' \<notin> set (''year='' @ StorageKey.year k)"
    by (rule key_no_slash [OF assms(1)]) simp
  have m: "CHR ''/'' \<notin> set (''month='' @ StorageKey.month k)"
    by (rule key_no_slash [OF assms(2)]) simp
  have d: "CHR ''/'' \<notin> set (''day='' @ StorageKey.day k)"
    by (rule key_no_slash [OF assms(3)]) simp
  show ?thesis
    unfolding full_path_unfold
    by (intro py_split_step py_split_no_sep DataCategory_value_no_slash assms(4,5) y m d)
qed

lemma kv_value_key: "CHR ''='' \<notin> set key \<Longrightarrow> CHR ''='' \<notin> set v \<Longrightarrow>
   index1 (py_split CHR ''='' (key @ CHR ''='' # v)) = Inr v"
  by (simp add: py_split_append py_split_no_sep)

lemma from_path_parts:
  assumes "py_split CHR ''/'' path = c # s # ys # ms # ds # f # rest"
    and "index1 (py_split CHR ''='' ys) = Inr y"
    and "index1 (py_split CHR ''='' ms) = Inr m"
    and "index1 (py_split CHR ''='' ds) = Inr d"
    and "DataCategory_of c = Some cat"
  shows "from_path b path = StorageKey_init b cat s y m d f"
  unfolding from_path_def Let_def assms(1)
  by (simp add: assms(2-5) del: py_split.simps)

lemma record_eta:
  "\<lparr>bucket = bucket k, category = category k, source = StorageKey.source k,
       year = StorageKey.year k, month = StorageKey.month k, day = StorageKey.day k,
       filename = filename k\<rparr> = k"
  by simp


section \<open>Storage keys: building and parsing\<close>

text \<open>
  C3. For every valid storage key (one that passes \<open>__post_init__\<close>, as every constructed
  key does) whose source and filename contain no \<open>/\<close>, parsing its \<open>full_path\<close> with
  \<open>from_path\<close> under the key's bucket returns the same key, field by field.
\<close>

theorem from_path_full_path_roundtrip:
  assumes "post_init k = Inr k"
    and "CHR ''/'' \<notin> set (StorageKey.source k)"
    and "CHR ''/'' \<notin> set (filename k)"
  shows "from_path (bucket k) (full_path k) = Inr k"
proof -
  from assms(1) have dig: "isdigit (StorageKey.year k)" "isdigit (StorageKey.month k)" "isdigit (StorageKey.day k)"
    using post_init_Inr by blast+
  have sp: "py_split CHR ''/'' (full_path k) =
     [DataCategory_value (category k), StorageKey.source k, ''year='' @ StorageKey.year k,
      ''month='' @ StorageKey.month k, ''day='' @ StorageKey.day k, filename k]"
    using split_full_path [OF dig assms(2,3)] .
  have y: "index1 (py_split CHR ''='' (''year='' @ StorageKey.year k)) = Inr (StorageKey.year k)"
    using kv_value_key [of "''year''" "StorageKey.year k"] isdigit_no_eq [OF dig(1)] by simp
  have m: "index1 (py_split CHR ''='' (''month='' @ StorageKey.month k)) = Inr (StorageKey.month k)"
    using kv_value_key [of "''month''" "StorageKey.month k"] isdigit_no_eq [OF dig(2)] by simp
  have d: "index1 (py_split CHR ''='' (''day='' @ StorageKey.day k)) = Inr (StorageKey.day k)"
    using kv_value_key [of "''day''" "StorageKey.day k"] isdigit_no_eq [OF dig(3)] by simp
  have "from_path (bucket k) (full_path k) =
        StorageKey_init (bucket k) (category k) (StorageKey.source k) (StorageKey.year k)
          (StorageKey.month k) (StorageKey.day k) (filename k)"
    by (rule from_path_parts [OF sp y m d DataCategory_of_value])
  also have "\<dots> = Inr k"
    unfolding StorageKey_init_def record_eta by (rule assms(1))
  finally show ?thesis .
qed

theorem from_path_full_path_roundtrip_witness:
  "from_path RAW ''avian_cases/oie_wahis/year=2023/month=05/day=15/data.parquet'' =
     Inr \<lparr>bucket = RAW, category = AVIAN_CASES, source = ''oie_wahis'', year = ''2023'',
           month = ''05'', day = ''15'', filename = ''data.parquet''\<rparr>"
proof -
  let ?k = "\<lparr>bucket = RAW, category = AVIAN_CASES, source = ''oie_wahis'', year = ''2023'',
           month = ''05'', day = ''15'', filename = ''data.parquet''\<rparr>"
  have v: "post_init ?k = Inr ?k"
    by (simp add: post_init_def out_of_range_def isdigit_def is_digit_def is_decimal_def
        py_int_def max_str_digits_def digit_value_def)
  have s: "CHR ''/'' \<notin> set (StorageKey.source ?k)" by simp
  have f: "CHR ''/'' \<notin> set (filename ?k)" by simp
  show ?thesis
    using from_path_full_path_roundtrip [OF v s f] by (simp add: full_path_def)
qed

section \<open>Digits and decimal notation\<close>

lemma char_of_decimal:
  "char_of (48::nat) = CHR ''0''" "char_of (49::nat) = CHR ''1''" "char_of (50::nat) = CHR ''2''"
  "char_of (51::nat) = CHR ''3''" "char_of (52::nat) = CHR ''4''" "char_of (53::nat) = CHR ''5''"
  "char_of (54::nat) = CHR ''6''" "char_of (55::nat) = CHR ''7''" "char_of (56::nat) = CHR ''8''"
  "char_of (57::nat) = CHR ''9''"
  by code_simp+

lemma char_of_superscript:
  "char_of (178::nat) = CHR 0xB2" "char_of (179::nat) = CHR 0xB3" "char_of (185::nat) = CHR 0xB9"
  by code_simp+

lemma decimal_range: "48 \<le> n \<Longrightarrow> n \<le> 57 \<Longrightarrow>
    n \<in> {48, 49, 50, 51, 52, 53, 54, 55, 56, 57 :: nat}"
  by (simp only: insert_iff empty_iff) arith

lemma is_decimal_cases:
  assumes "is_decimal c"
  shows "c \<in> {CHR ''0'', CHR ''1'', CHR ''2'', CHR ''3'', CHR ''4'', CHR ''5'', CHR ''6'',
               CHR ''7'', CHR ''8'', CHR ''9''}"
proof -
  have c: "c = char_of (of_char c :: nat)" by simp
  have "(of_char c :: nat) \<in> {48, 49, 50, 51, 52, 53, 54, 55, 56, 57}"
    using assms decimal_range by (simp add: is_decimal_def)
  then consider "(of_char c :: nat) = 48" | "(of_char c :: nat) = 49" | "(of_char c :: nat) = 50"
    | "(of_char c :: nat) = 51" | "(of_char c :: nat) = 52" | "(of_char c :: nat) = 53"
    | "(of_char c :: nat) = 54" | "(of_char c :: nat) = 55" | "(of_char c :: nat) = 56"
    | "(of_char c :: nat) = 57"
    by auto
  then show ?thesis
  proof cases
    case 1 then have "c = CHR ''0''" using c char_of_decimal(1) by metis
    then show ?thesis by simp
  next
    case 2 then have "c = CHR ''1''" using c char_of_decimal(2) by metis
    then show ?thesis by simp
  next
    case 3 then have "c = CHR ''2''" using c char_of_decimal(3) by metis
    then show ?thesis by simp
  next
    case 4 then have "c = CHR ''3''" using c char_of_decimal(4) by metis
    then show ?thesis by simp
  next
    case 5 then have "c = CHR ''4''" using c char_of_decimal(5) by metis
    then show ?thesis by simp
  next
    case 6 then have "c = CHR ''5''" using c char_of_decimal(6) by metis
    then show ?thesis by simp
  next
    case 7 then have "c = CHR ''6''" using c char_of_decimal(7) by metis
    then show ?thesis by simp
  next
    case 8 then have "c = CHR ''7''" using c char_of_decimal(8) by metis
    then show ?thesis by simp
  next
    case 9 then have "c = CHR ''8''" using c char_of_decimal(9) by metis
    then show ?thesis by simp
  next
    case 10 then have "c = CHR ''9''" using c char_of_decimal(10) by metis
    then show ?thesis by simp
  qed
qed

lemma digit_index_values:
  "digit_index CHR ''0'' = 0" "digit_index CHR ''1'' = 1" "digit_index CHR ''2'' = 2"
  "digit_index CHR ''3'' = 3" "digit_index CHR ''4'' = 4" "digit_index CHR ''5'' = 5"
  "digit_index CHR ''6'' = 6" "digit_index CHR ''7'' = 7" "digit_index CHR ''8'' = 8"
  "digit_index CHR ''9'' = 9"
  by (simp_all add: digit_index_def)

lemma digit_value_values:
  "digit_value CHR ''0'' = 0" "digit_value CHR ''1'' = 1" "digit_value CHR ''2'' = 2"
  "digit_value CHR ''3'' = 3" "digit_value CHR ''4'' = 4" "digit_value CHR ''5'' = 5"
  "digit_value CHR ''6'' = 6" "digit_value CHR ''7'' = 7" "digit_value CHR ''8'' = 8"
  "digit_value CHR ''9'' = 9"
  by (simp_all add: digit_value_def)

lemma is_decimal_values:
  "is_decimal CHR ''0''" "is_decimal CHR ''1''" "is_decimal CHR ''2''" "is_decimal CHR ''3''"
  "is_decimal CHR ''4''" "is_decimal CHR ''5''" "is_decimal CHR ''6''" "is_decimal CHR ''7''"
  "is_decimal CHR ''8''" "is_decimal CHR ''9''"
  by (simp_all add: is_decimal_def)

lemma is_decimal_iff: "is_decimal c \<longleftrightarrow> c \<in> set ''0123456789''"
proof
  assume "is_decimal c"
  then show "c \<in> set ''0123456789''" using is_decimal_cases by fastforce
next
  assume "c \<in> set ''0123456789''"
  then have "c \<in> {CHR ''0'', CHR ''1'', CHR ''2'', CHR ''3'', CHR ''4'', CHR ''5'', CHR ''6'',
               CHR ''7'', CHR ''8'', CHR ''9''}" by simp
  then show "is_decimal c" using is_decimal_values by blast
qed

lemma digit_value_index: "is_decimal c \<Longrightarrow> digit_value c = digit_index c"
  using is_decimal_cases [of c] digit_index_values digit_value_values by auto


lemma numeral_string_iff: "numeral_string s \<longleftrightarrow> s \<noteq> [] \<and> list_all is_decimal s"
  unfolding numeral_string_def is_decimal_iff [symmetric] ..

lemma is_decimal_is_digit: "is_decimal c \<Longrightarrow> is_digit c"
  by (simp add: is_digit_def)

lemma numeral_string_isdigit: "numeral_string s \<Longrightarrow> isdigit s"
  by (auto simp: numeral_string_iff isdigit_def list_all_iff is_decimal_is_digit)

lemma is_digit_not_superscript:
  assumes "is_digit c" and "c \<notin> superscript_digits"
  shows "is_decimal c"
proof (rule ccontr)
  assume n: "\<not> is_decimal c"
  have c: "c = char_of (of_char c :: nat)" by simp
  from assms(1) n consider "(of_char c :: nat) = 178" | "(of_char c :: nat) = 179"
    | "(of_char c :: nat) = 185"
    by (auto simp: is_digit_def)
  then have "c \<in> superscript_digits"
  proof cases
    case 1 then have "c = CHR 0xB2" using c char_of_superscript(1) by metis
    then show ?thesis by (simp add: superscript_digits_def)
  next
    case 2 then have "c = CHR 0xB3" using c char_of_superscript(2) by metis
    then show ?thesis by (simp add: superscript_digits_def)
  next
    case 3 then have "c = CHR 0xB9" using c char_of_superscript(3) by metis
    then show ?thesis by (simp add: superscript_digits_def)
  qed
  with assms(2) show False by simp
qed

lemma isdigit_numeral_string:
  "isdigit s \<Longrightarrow> set s \<inter> superscript_digits = {} \<Longrightarrow> numeral_string s"
  using is_digit_not_superscript
  by (auto simp: numeral_string_iff isdigit_def list_all_iff)

lemma foldl_number_of:
  "list_all is_decimal s \<Longrightarrow>
   foldl (\<lambda>a c. 10 * a + digit_value c) a s = a * 10 ^ length s + number_of s"
proof (induction s arbitrary: a)
  case Nil
  then show ?case by simp
next
  case (Cons c cs)
  then have "digit_value c = digit_index c" and "list_all is_decimal cs"
    by (simp_all add: digit_value_index)
  then show ?case using Cons.IH [of "10 * a + digit_value c"]
    by (simp add: algebra_simps)
qed

lemma py_int_numeral:
  "numeral_string s \<Longrightarrow> length s \<le> 4300 \<Longrightarrow> py_int s = Inr (number_of s)"
  using foldl_number_of [of s 0]
  by (simp add: py_int_def numeral_string_iff max_str_digits_def)

lemma py_int_Inr:
  "py_int s = Inr n \<Longrightarrow> numeral_string s \<and> length s \<le> 4300 \<and> n = number_of s"
proof -
  assume a: "py_int s = Inr n"
  then have c: "s \<noteq> [] \<and> list_all is_decimal s \<and> length s \<le> 4300"
    by (simp add: py_int_def max_str_digits_def split: if_splits)
  then have "numeral_string s" by (simp add: numeral_string_iff)
  with a c py_int_numeral [of s] show ?thesis by simp
qed

lemma py_int_Inl: "py_int s = Inl e \<Longrightarrow> e = ValueError (IntConversion s)"
  by (simp add: py_int_def split: if_splits)

lemma out_of_range_in:
  "numeral_string s \<Longrightarrow> length s \<le> 4300 \<Longrightarrow>
   out_of_range s hi = Inr (\<not> (1 \<le> number_of s \<and> number_of s \<le> hi))"
  by (simp add: out_of_range_def numeral_string_isdigit py_int_numeral)

lemma out_of_range_False:
  "out_of_range s hi = Inr False \<Longrightarrow>
   numeral_string s \<and> length s \<le> 4300 \<and> 1 \<le> number_of s \<and> number_of s \<le> hi"
proof -
  assume a: "out_of_range s hi = Inr False"
  then have d: "isdigit s" by (simp add: out_of_range_def split: if_splits)
  with a obtain n where n: "py_int s = Inr n" "1 \<le> n \<and> n \<le> hi"
    by (auto simp: out_of_range_def split: sum.splits)
  with py_int_Inr [OF n(1)] show ?thesis by simp
qed

lemma out_of_range_cases:
  "out_of_range s hi = Inr False \<or> out_of_range s hi = Inr True
     \<or> out_of_range s hi = Inl (ValueError (IntConversion s))"
proof (cases "out_of_range s hi")
  case (Inl e)
  then have "py_int s = Inl e"
    by (simp add: out_of_range_def split: if_splits sum.splits)
  with Inl py_int_Inl show ?thesis by blast
next
  case (Inr b)
  then show ?thesis by (cases b) simp_all
qed


lemma digit_cases: "d < 10 \<Longrightarrow> d \<in> {0, 1, 2, 3, 4, 5, 6, 7, 8, 9::nat}"
  by (simp only: insert_iff empty_iff) arith

lemma digit_char_values:
  "digit_char 0 = CHR ''0''" "digit_char 1 = CHR ''1''" "digit_char 2 = CHR ''2''"
  "digit_char 3 = CHR ''3''" "digit_char 4 = CHR ''4''" "digit_char 5 = CHR ''5''"
  "digit_char 6 = CHR ''6''" "digit_char 7 = CHR ''7''" "digit_char 8 = CHR ''8''"
  "digit_char 9 = CHR ''9''" "digit_char (Suc 0) = CHR ''1''"
  by (simp_all add: digit_char_def)

lemma digit_char_decimal: "d < 10 \<Longrightarrow> is_decimal (digit_char d) \<and> digit_index (digit_char d) = d"
  by (drule digit_cases) (auto simp: digit_char_values is_decimal_values digit_index_values)

lemma str_lt_10: "n < 10 \<Longrightarrow> str n = [digit_char n]"
  by (simp add: str.simps)

lemma str_ge_10: "10 \<le> n \<Longrightarrow> str n = str (n div 10) @ [digit_char (n mod 10)]"
  by (subst str.simps) simp

lemma str_lt_100: "10 \<le> n \<Longrightarrow> n < 100 \<Longrightarrow> str n = [digit_char (n div 10), digit_char (n mod 10)]"
  by (simp add: str_ge_10 str_lt_10)

lemma format_02d_eq: "n < 100 \<Longrightarrow> format_02d n = [digit_char (n div 10), digit_char (n mod 10)]"
proof (cases "n < 10")
  case True
  then show ?thesis by (simp add: format_02d_def str_lt_10 digit_char_def)
next
  case False
  assume "n < 100"
  with False show ?thesis by (simp add: format_02d_def str_lt_100)
qed

lemma two_digits: "n < 100 \<Longrightarrow> numeral_string [digit_char (n div 10), digit_char (n mod 10)]
    \<and> number_of [digit_char (n div 10), digit_char (n mod 10)] = n"
  by (simp add: numeral_string_iff digit_char_decimal)

lemma str_4: "1000 \<le> n \<Longrightarrow> n \<le> 9999 \<Longrightarrow>
   str n = [digit_char (n div 1000), digit_char (n div 100 mod 10), digit_char (n div 10 mod 10), digit_char (n mod 10)]"
proof -
  assume a: "1000 \<le> n" "n \<le> 9999"
  have 1: "str n = str (n div 10) @ [digit_char (n mod 10)]" using a by (simp add: str_ge_10)
  have 2: "str (n div 10) = str (n div 10 div 10) @ [digit_char (n div 10 mod 10)]"
    using a by (simp add: str_ge_10)
  have 3: "str (n div 10 div 10) = str (n div 10 div 10 div 10) @ [digit_char (n div 10 div 10 mod 10)]"
    using a by (simp add: str_ge_10)
  have 4: "str (n div 10 div 10 div 10) = [digit_char (n div 10 div 10 div 10)]"
    using a by (simp add: str_lt_10)
  show ?thesis unfolding 1 2 3 4 by (simp add: div_mult2_eq [symmetric])
qed

lemma numeral_string_str_4:
  "1000 \<le> n \<Longrightarrow> n \<le> 9999 \<Longrightarrow> numeral_string (str n) \<and> length (str n) = 4"
  by (simp add: str_4 numeral_string_iff digit_char_decimal)

section \<open>Construction of storage keys\<close>

lemma StorageKey_init_valid:
  assumes "valid_date y m d"
  shows "StorageKey_init b c s y m d f =
     Inr \<lparr>bucket = b, category = c, source = s, year = y, month = m, day = d, filename = f\<rparr>"
proof -
  have y: "isdigit y" "length y = 4"
    using assms by (simp_all add: valid_date_def numeral_string_isdigit)
  have m: "out_of_range m 12 = Inr False"
    using assms out_of_range_in [of m 12] by (simp add: valid_date_def)
  have d: "out_of_range d 31 = Inr False"
    using assms out_of_range_in [of d 31] by (simp add: valid_date_def)
  show ?thesis by (simp add: StorageKey_init_def post_init_def y m d)
qed

lemma StorageKey_init_Inr:
  assumes "StorageKey_init b c s y m d f = Inr k"
  shows "k = \<lparr>bucket = b, category = c, source = s, year = y, month = m, day = d, filename = f\<rparr>
         \<and> isdigit y \<and> length y = 4
         \<and> out_of_range m 12 = Inr False \<and> out_of_range d 31 = Inr False"
  using assms unfolding StorageKey_init_def post_init_def
  by (simp split: if_splits sum.splits bool.splits)

lemma StorageKey_init_Inl:
  "StorageKey_init b c s y m d f = Inl e \<Longrightarrow> \<exists>v. e = ValueError v"
  unfolding StorageKey_init_def post_init_def
  using out_of_range_cases [of m 12] out_of_range_cases [of d 31]
  by (auto split: if_splits sum.splits bool.splits)

lemma StorageKey_init_Inr_valid:
  assumes "StorageKey_init b c s y m d f = Inr k" and "set y \<inter> superscript_digits = {}"
  shows "valid_date y m d"
proof -
  from StorageKey_init_Inr [OF assms(1)]
  have y: "isdigit y" "length y = 4" and m: "out_of_range m 12 = Inr False"
    and d: "out_of_range d 31 = Inr False" by simp_all
  have "numeral_string y" using y(1) assms(2) by (rule isdigit_numeral_string)
  with y(2) out_of_range_False [OF m] out_of_range_False [OF d]
  show ?thesis by (simp add: valid_date_def)
qed

lemma StorageKey_init_invalid:
  assumes "\<not> valid_date y m d" and "set y \<inter> superscript_digits = {}"
  shows "\<exists>v. StorageKey_init b c s y m d f = Inl (ValueError v)"
proof (cases "StorageKey_init b c s y m d f")
  case (Inl e)
  then show ?thesis using StorageKey_init_Inl by blast
next
  case (Inr k)
  then have "valid_date y m d" using assms(2) by (rule StorageKey_init_Inr_valid)
  with assms(1) show ?thesis by simp
qed

lemma valid_date_example: "valid_date ''2023'' ''05'' ''15''"
  by (simp add: valid_date_def numeral_string_def digit_index_def)

lemma valid_date_isdigit: "valid_date y m d \<Longrightarrow> isdigit y \<and> isdigit m \<and> isdigit d"
  by (simp add: valid_date_def numeral_string_isdigit)

lemma StorageKey_legacy_init_always:
  "\<exists>k. StorageKey_legacy_init b c s y m d f = Inr k"
  by (simp add: StorageKey_legacy_init_def)


lemma number_of_zeros: "number_of (replicate n CHR ''0'' @ s) = number_of s"
  by (induction n) (simp_all add: digit_index_values)

lemma numeral_string_zeros:
  "numeral_string s \<Longrightarrow> numeral_string (replicate n CHR ''0'' @ s)"
  by (induction n) (simp_all add: numeral_string_iff is_decimal_values)

lemma numeral_12: "numeral_string ''12''" "number_of ''12'' = 12"
  by (simp_all add: numeral_string_iff is_decimal_values digit_index_values)

lemma long_month_numeral: "numeral_string long_month" "number_of long_month = 12"
  unfolding long_month_def
  by (rule numeral_string_zeros [OF numeral_12(1)]) (simp only: number_of_zeros numeral_12(2))

lemma long_month_length: "length long_month = 4301"
  unfolding long_month_def by (simp only: length_append length_replicate) simp

lemma long_month_out_of_range:
  "out_of_range long_month 12 = Inl (ValueError (IntConversion long_month))"
proof -
  have "isdigit long_month" using long_month_numeral(1) by (rule numeral_string_isdigit)
  moreover have "py_int long_month = Inl (ValueError (IntConversion long_month))"
    by (simp add: py_int_def long_month_length max_str_digits_def)
  ultimately show ?thesis by (simp add: out_of_range_def)
qed

lemma long_month_init:
  "StorageKey_init b c s ''2023'' long_month ''15'' f =
     Inl (ValueError (IntConversion long_month))"
proof -
  have "isdigit ''2023''" using valid_date_example valid_date_isdigit by blast
  then show ?thesis
    by (simp add: StorageKey_init_def post_init_def long_month_out_of_range)
qed

lemma superscript_year_init:
  "StorageKey_init b c s [CHR 0xB2, CHR 0xB2, CHR 0xB2, CHR 0xB2] ''05'' ''15'' f =
     Inr \<lparr>bucket = b, category = c, source = s,
           year = [CHR 0xB2, CHR 0xB2, CHR 0xB2, CHR 0xB2], month = ''05'', day = ''15'',
           filename = f\<rparr>"
proof -
  have y: "isdigit [CHR 0xB2, CHR 0xB2, CHR 0xB2, CHR 0xB2]"
    by (simp add: isdigit_def is_digit_def)
  have m: "out_of_range ''05'' 12 = Inr False"
    using valid_date_example out_of_range_in [of "''05''" 12] by (simp add: valid_date_def)
  have d: "out_of_range ''15'' 31 = Inr False"
    using valid_date_example out_of_range_in [of "''15''" 31] by (simp add: valid_date_def)
  show ?thesis by (simp add: StorageKey_init_def post_init_def y m d)
qed

text \<open>
  C6 (amended). For the \<open>StorageKey\<close> of \<open>schemas/storage.py\<close> and a year without
  superscript digits: the construction succeeds exactly when the year is a numeral of
  four characters, the month a numeral of at most 4300 characters with a number from 1
  to 12, and the day a numeral of at most 4300 characters with a number from 1 to 31;
  otherwise it raises \<open>ValueError\<close>; and every key that is constructed has such a date.
\<close>

theorem StorageKey_init_succeeds_iff:
  assumes "set y \<inter> superscript_digits = {}"
  shows "(valid_date y m d \<longrightarrow>
            StorageKey_init b c s y m d f =
              Inr \<lparr>bucket = b, category = c, source = s, year = y, month = m, day = d,
                    filename = f\<rparr>)
       \<and> (\<not> valid_date y m d \<longrightarrow>
            (\<exists>v. StorageKey_init b c s y m d f = Inl (ValueError v)))
       \<and> (\<forall>k. StorageKey_init b c s y m d f = Inr k \<longrightarrow>
              valid_date (StorageKey.year k) (StorageKey.month k) (StorageKey.day k))"
proof (intro conjI impI allI)
  assume "valid_date y m d"
  then show "StorageKey_init b c s y m d f =
      Inr \<lparr>bucket = b, category = c, source = s, year = y, month = m, day = d, filename = f\<rparr>"
    by (rule StorageKey_init_valid)
next
  assume "\<not> valid_date y m d"
  then show "\<exists>v. StorageKey_init b c s y m d f = Inl (ValueError v)"
    using assms by (rule StorageKey_init_invalid)
next
  fix k
  assume k: "StorageKey_init b c s y m d f = Inr k"
  then have "valid_date y m d" using assms by (rule StorageKey_init_Inr_valid)
  moreover have "StorageKey.year k = y" "StorageKey.month k = m" "StorageKey.day k = d"
    using StorageKey_init_Inr [OF k] by simp_all
  ultimately show "valid_date (StorageKey.year k) (StorageKey.month k) (StorageKey.day k)"
    by simp
qed

lemma no_superscript_2023: "set ''2023'' \<inter> superscript_digits = {}"
  by (simp add: superscript_digits_def)

lemma not_valid_month_13: "\<not> valid_date ''2023'' ''13'' ''15''"
  by (simp add: valid_date_def digit_index_def)

theorem StorageKey_init_succeeds_iff_witness:
  "set ''2023'' \<inter> superscript_digits = {}
   \<and> valid_date ''2023'' ''05'' ''15''
   \<and> StorageKey_init RAW AVIAN_CASES ''s'' ''2023'' ''05'' ''15'' ''f'' =
      Inr \<lparr>bucket = RAW, category = AVIAN_CASES, source = ''s'', year = ''2023'',
            month = ''05'', day = ''15'', filename = ''f''\<rparr>
   \<and> \<not> valid_date ''2023'' ''13'' ''15''
   \<and> (\<exists>v. StorageKey_init RAW AVIAN_CASES ''s'' ''2023'' ''13'' ''15'' ''f''
           = Inl (ValueError v))"
  using
    StorageKey_init_succeeds_iff
      [OF no_superscript_2023, of "''05''" "''15''" RAW AVIAN_CASES "''s''" "''f''"]
    StorageKey_init_succeeds_iff
      [OF no_superscript_2023, of "''13''" "''15''" RAW AVIAN_CASES "''s''" "''f''"]
    no_superscript_2023 valid_date_example not_valid_month_13
  by blast

text \<open>
  C6 as stated fails in three places. A month of 4301 decimal digits with the number 12
  is rejected, because \<open>int\<close> refuses a string of more than 4300 digits. A year of four
  superscript twos passes \<open>isdigit\<close> and the key is constructed. The \<open>StorageKey\<close> of the
  older copy is constructed for any date, here month 13 and day 99.
\<close>

theorem StorageKey_init_counterexample:
  "numeral_string long_month \<and> length long_month = 4301 \<and> number_of long_month = 12
   \<and> StorageKey_init RAW AVIAN_CASES ''s'' ''2023'' long_month ''15'' ''f'' =
       Inl (ValueError (IntConversion long_month))
   \<and> StorageKey_init RAW AVIAN_CASES ''s'' [CHR 0xB2, CHR 0xB2, CHR 0xB2, CHR 0xB2] ''05''
         ''15'' ''f'' =
       Inr \<lparr>bucket = RAW, category = AVIAN_CASES, source = ''s'',
             year = [CHR 0xB2, CHR 0xB2, CHR 0xB2, CHR 0xB2], month = ''05'', day = ''15'',
             filename = ''f''\<rparr>
   \<and> StorageKey_legacy_init RAW_legacy AVIAN_CASES_legacy ''s'' ''20'' ''13'' ''99'' ''f'' =
       Inr \<lparr>bucket_legacy = RAW_legacy, category_legacy = AVIAN_CASES_legacy,
             source_legacy = ''s'', year_legacy = ''20'', month_legacy = ''13'',
             day_legacy = ''99'', filename_legacy = ''f''\<rparr>"
  by (simp only: long_month_numeral long_month_length long_month_init superscript_year_init
      StorageKey_legacy_init_def simp_thms)

section \<open>Parsing storage paths\<close>

lemma py_split_no_sep_in: "s \<in> set (py_split sep p) \<Longrightarrow> sep \<notin> set s"
proof (induction p arbitrary: s)
  case Nil
  then show ?case by simp
next
  case (Cons c cs)
  obtain q qs where q: "py_split sep cs = q # qs"
    using py_split_not_Nil [of sep cs] by (cases "py_split sep cs") auto
  show ?case
  proof (cases "c = sep")
    case True
    with Cons show ?thesis by auto
  next
    case False
    with Cons.prems q have "s = c # q \<or> s \<in> set qs" by simp
    then show ?thesis
    proof
      assume "s = c # q"
      moreover have "sep \<notin> set q" using Cons.IH [of q] q by simp
      ultimately show ?thesis using False by auto
    next
      assume "s \<in> set qs"
      then show ?thesis using Cons.IH [of s] q by simp
    qed
  qed
qed


lemma from_path_long:
  "6 \<le> length (segments p) \<Longrightarrow>
   from_path b p =
     (if CHR ''='' \<in> set (segments p ! 2) \<and> CHR ''='' \<in> set (segments p ! 3)
         \<and> CHR ''='' \<in> set (segments p ! 4)
      then (case DataCategory_of (segments p ! 0) of
              None \<Rightarrow> Inl (ValueError (InvalidCategory (segments p ! 0)))
            | Some c \<Rightarrow>
                StorageKey_init b c (segments p ! 1) (kv_value (segments p ! 2))
                  (kv_value (segments p ! 3)) (kv_value (segments p ! 4)) (segments p ! 5))
      else Inl IndexError)"
  by (simp add: from_path_def segments_def Let_def index1_split_eq split: option.split
      del: py_split.simps)










lemma kv_w: "kv_value ''year=2023'' = ''2023''" "kv_value ''month=05'' = ''05''"
  "kv_value ''day=15'' = ''15''" "kv_value ''month=13'' = ''13''" "kv_value ''year=x'' = ''x''"
  by (simp_all add: kv_value_def)


lemma nth_take6: "i < 6 \<Longrightarrow> take 6 xs = take 6 ys \<Longrightarrow> 6 \<le> length xs \<Longrightarrow> 6 \<le> length ys \<Longrightarrow> xs ! i = ys ! i"
  by (metis nth_take)

lemma from_path_first_six:
  assumes "6 \<le> length (segments p)" "6 \<le> length (segments q)"
    and "take 6 (segments q) = take 6 (segments p)"
  shows "from_path b q = from_path b p"
proof -
  have e: "segments q ! i = segments p ! i" if "i < 6" for i
    using nth_take6 [OF that assms(3) assms(2) assms(1)] .
  have "segments q ! 0 = segments p ! 0" "segments q ! 1 = segments p ! 1"
    "segments q ! 2 = segments p ! 2" "segments q ! 3 = segments p ! 3"
    "segments q ! 4 = segments p ! 4" "segments q ! 5 = segments p ! 5"
    using e by simp_all
  then show ?thesis
    by (simp only: from_path_long [OF assms(1)] from_path_long [OF assms(2)])
qed

text \<open>
  C10 (amended). For a path with more than six segments whose first segment is a known
  category, whose third to fifth segments each contain \<open>=\<close> and whose date values are
  valid, \<open>from_path\<close> succeeds; every path with the same first six segments is parsed to
  the same key; and \<open>full_path\<close> of the key differs from the path.
\<close>

theorem from_path_ignores_extra_segments:
  assumes "6 < length (segments p)"
    and "DataCategory_of (segments p ! 0) = Some c"
    and "CHR ''='' \<in> set (segments p ! 2)"
    and "CHR ''='' \<in> set (segments p ! 3)"
    and "CHR ''='' \<in> set (segments p ! 4)"
    and "valid_date (kv_value (segments p ! 2)) (kv_value (segments p ! 3))
           (kv_value (segments p ! 4))"
  shows "\<exists>k. from_path b p = Inr k
           \<and> (\<forall>q. 6 \<le> length (segments q) \<and> take 6 (segments q) = take 6 (segments p)
                  \<longrightarrow> from_path b q = Inr k)
           \<and> full_path k \<noteq> p"
proof -
  let ?k = "\<lparr>bucket = b, category = c, source = segments p ! 1,
              year = kv_value (segments p ! 2), month = kv_value (segments p ! 3),
              day = kv_value (segments p ! 4), filename = segments p ! 5\<rparr>"
  have len: "6 \<le> length (segments p)" using assms(1) by simp
  have "from_path b p =
          StorageKey_init b c (segments p ! 1) (kv_value (segments p ! 2))
            (kv_value (segments p ! 3)) (kv_value (segments p ! 4)) (segments p ! 5)"
    using from_path_long [OF len, of b] assms(2-5) by simp
  then have ok: "from_path b p = Inr ?k"
    using StorageKey_init_valid [OF assms(6)] by simp
  have same: "from_path b q = Inr ?k"
    if "6 \<le> length (segments q) \<and> take 6 (segments q) = take 6 (segments p)" for q
    using from_path_first_six [OF len, of q b] that ok by simp
  have s1: "segments p ! 1 \<in> set (py_split CHR ''/'' p)"
    and s5: "segments p ! 5 \<in> set (py_split CHR ''/'' p)"
    using len by (simp_all add: segments_def del: py_split.simps)
  have dig: "isdigit (StorageKey.year ?k)" "isdigit (StorageKey.month ?k)"
    "isdigit (StorageKey.day ?k)"
    using valid_date_isdigit [OF assms(6)] by simp_all
  have "length (py_split CHR ''/'' (full_path ?k)) = 6"
    using split_full_path [OF dig, of ] py_split_no_sep_in [OF s1] py_split_no_sep_in [OF s5]
    by simp
  then have "full_path ?k \<noteq> p"
    using assms(1) by (auto simp: segments_def simp del: py_split.simps)
  with ok same show ?thesis by blast
qed

lemma segs_x1: "segments ''avian_cases/s/year=2023/month=05/day=15/f/extra'' =
    [''avian_cases'', ''s'', ''year=2023'', ''month=05'', ''day=15'', ''f'', ''extra'']"
  by (simp add: segments_def)

lemma segs_x2: "segments ''avian_cases/s/year=2023/month=05/day=15/f/other/more'' =
    [''avian_cases'', ''s'', ''year=2023'', ''month=05'', ''day=15'', ''f'', ''other'', ''more'']"
  by (simp add: segments_def)

lemma segs_x3: "segments ''avian_cases/s/year=x/month=05/day=15/f/extra'' =
    [''avian_cases'', ''s'', ''year=x'', ''month=05'', ''day=15'', ''f'', ''extra'']"
  by (simp add: segments_def)

theorem from_path_ignores_extra_segments_witness:
  "\<exists>k. from_path RAW ''avian_cases/s/year=2023/month=05/day=15/f/extra'' = Inr k
     \<and> from_path RAW ''avian_cases/s/year=2023/month=05/day=15/f/other/more'' = Inr k
     \<and> full_path k \<noteq> ''avian_cases/s/year=2023/month=05/day=15/f/extra''"
proof -
  let ?p = "''avian_cases/s/year=2023/month=05/day=15/f/extra''"
  let ?q = "''avian_cases/s/year=2023/month=05/day=15/f/other/more''"
  have 1: "6 < length (segments ?p)" by (simp only: segs_x1) simp
  have 2: "DataCategory_of (segments ?p ! 0) = Some AVIAN_CASES"
    by (simp only: segs_x1) (simp add: DataCategory_of_def)
  have 3: "CHR ''='' \<in> set (segments ?p ! 2)" by (simp only: segs_x1) simp
  have 4: "CHR ''='' \<in> set (segments ?p ! 3)" by (simp only: segs_x1) simp
  have 5: "CHR ''='' \<in> set (segments ?p ! 4)" by (simp only: segs_x1) simp
  have 6: "valid_date (kv_value (segments ?p ! 2)) (kv_value (segments ?p ! 3))
           (kv_value (segments ?p ! 4))"
    by (simp only: segs_x1) (simp add: kv_w valid_date_example)
  have q: "6 \<le> length (segments ?q) \<and> take 6 (segments ?q) = take 6 (segments ?p)"
    by (simp only: segs_x1 segs_x2) simp
  from from_path_ignores_extra_segments [OF 1 2 3 4 5 6, of RAW] q
  show ?thesis by blast
qed

text \<open>
  C10 as stated fails: the path below has seven segments, a known category and \<open>=\<close> in
  its third to fifth segments, and \<open>from_path\<close> raises \<open>ValueError\<close> for its year.
\<close>

theorem from_path_extra_segments_counterexample:
  "6 < length (segments ''avian_cases/s/year=x/month=05/day=15/f/extra'')
   \<and> DataCategory_of (segments ''avian_cases/s/year=x/month=05/day=15/f/extra'' ! 0)
       = Some AVIAN_CASES
   \<and> CHR ''='' \<in> set (segments ''avian_cases/s/year=x/month=05/day=15/f/extra'' ! 2)
   \<and> CHR ''='' \<in> set (segments ''avian_cases/s/year=x/month=05/day=15/f/extra'' ! 3)
   \<and> CHR ''='' \<in> set (segments ''avian_cases/s/year=x/month=05/day=15/f/extra'' ! 4)
   \<and> from_path RAW ''avian_cases/s/year=x/month=05/day=15/f/extra'' =
       Inl (ValueError (InvalidYear ''x''))"
proof -
  have "StorageKey_init RAW AVIAN_CASES ''s'' ''x'' ''05'' ''15'' ''f'' =
        Inl (ValueError (InvalidYear ''x''))"
    by (simp add: StorageKey_init_def post_init_def isdigit_def is_digit_def is_decimal_def)
  then show ?thesis
    by (simp add: from_path_long segs_x3 kv_w DataCategory_of_def)
qed

section \<open>Building storage keys from cases\<close>

lemma of_char_lower_char:
  "is_upper ch \<Longrightarrow> (of_char (lower_char ch) :: nat) = of_char ch + 32"
proof -
  assume u: "is_upper ch"
  then have "lower_char ch = char_of (of_char ch + (32::nat))" by (simp add: lower_char_def)
  then have "(of_char (lower_char ch) :: nat) = (of_char ch + 32) mod 256" by simp
  moreover have "(of_char ch :: nat) + 32 < 256" using u by (auto simp: is_upper_def)
  ultimately show ?thesis by simp
qed

lemma lower_char_space: "lower_char ch = CHR '' '' \<longleftrightarrow> ch = CHR '' ''"
proof
  assume a: "lower_char ch = CHR '' ''"
  show "ch = CHR '' ''"
  proof (cases "is_upper ch")
    case True
    from of_char_lower_char [OF True] a True show ?thesis by (simp add: is_upper_def)
  next
    case False
    with a show ?thesis by (simp add: lower_char_def)
  qed
next
  assume "ch = CHR '' ''"
  then show "lower_char ch = CHR '' ''" by (simp add: lower_char_def is_upper_def)
qed

lemma replace_space_lower:
  "replace_space (lower s) = map (\<lambda>ch. if ch = CHR '' '' then CHR ''_'' else lower_char ch) s"
  by (simp add: replace_space_def lower_def lower_char_space)

lemma valid_date_built:
  assumes "1000 \<le> y" "y \<le> 9999" "1 \<le> m" "m \<le> 12" "1 \<le> d" "d \<le> 31"
  shows "valid_date (str y) [digit_char (m div 10), digit_char (m mod 10)]
           [digit_char (d div 10), digit_char (d mod 10)]"
proof -
  have "m < 100" "d < 100" using assms by simp_all
  then show ?thesis
    using numeral_string_str_4 [OF assms(1,2)] two_digits [of m] two_digits [of d] assms(3-6)
    by (simp add: valid_date_def)
qed

lemma to_storage_key_valid:
  assumes "1000 \<le> datetime.year (detection_date c)" "datetime.year (detection_date c) \<le> 9999"
    and "1 \<le> datetime.month (detection_date c)" "datetime.month (detection_date c) \<le> 12"
    and "1 \<le> datetime.day (detection_date c)" "datetime.day (detection_date c) \<le> 31"
  shows "to_storage_key c f =
           Inr \<lparr>bucket = RAW, category = AVIAN_CASES,
                 source = map (\<lambda>ch. if ch = CHR '' '' then CHR ''_'' else lower_char ch)
                            (Metadata.source (metadata c)),
                 year = str (datetime.year (detection_date c)),
                 month = [digit_char (datetime.month (detection_date c) div 10),
                          digit_char (datetime.month (detection_date c) mod 10)],
                 day = [digit_char (datetime.day (detection_date c) div 10),
                        digit_char (datetime.day (detection_date c) mod 10)],
                 filename = f\<rparr>"
proof -
  have m: "datetime.month (detection_date c) < 100" and d: "datetime.day (detection_date c) < 100"
    using assms by simp_all
  show ?thesis
    unfolding to_storage_key_def format_02d_eq [OF m] format_02d_eq [OF d] replace_space_lower
    by (rule StorageKey_init_valid [OF valid_date_built [OF assms]])
qed

lemma lower_example: "lower ''OIE WAHIS'' = ''oie wahis''"
  by code_simp

lemma lower_example2: "lower ''WHO-EU'' = ''who-eu''"
  by code_simp

lemma str_2023: "str 2023 = ''2023''"
  by code_simp

lemma digits_example: "digit_char 0 = CHR ''0''" "digit_char (Suc 0) = CHR ''1''"
  "digit_char 1 = CHR ''1''" "digit_char 5 = CHR ''5''"
  by (simp_all add: digit_char_def)


lemma lower_char_examples:
  "lower_char CHR ''O'' = CHR ''o''" "lower_char CHR ''I'' = CHR ''i''"
  "lower_char CHR ''E'' = CHR ''e''" "lower_char CHR ''W'' = CHR ''w''"
  "lower_char CHR ''A'' = CHR ''a''" "lower_char CHR ''H'' = CHR ''h''"
  "lower_char CHR ''S'' = CHR ''s''"
  by code_simp+

lemma lower_latin1_example:
  "replace_space (lower [CHR 0xC9, CHR ''C'', CHR ''O'', CHR ''L'', CHR ''E'', CHR '' '', CHR ''Z'']) =
     [CHR 0xE9, CHR ''c'', CHR ''o'', CHR ''l'', CHR ''e'', CHR ''_'', CHR ''z'']"
  by code_simp

lemma normalize_example:
  "map (\<lambda>ch. if ch = CHR '' '' then CHR ''_'' else lower_char ch) ''OIE WAHIS'' = ''oie_wahis''"
  unfolding replace_space_lower [symmetric] lower_example by (simp add: replace_space_def)

lemma normalize_example2:
  "map (\<lambda>ch. if ch = CHR '' '' then CHR ''_'' else lower_char ch) ''WHO-EU'' = ''who-eu''"
  unfolding replace_space_lower [symmetric] lower_example2 by (simp add: replace_space_def)

lemma to_storage_key_example:
  "to_storage_key
     \<lparr>case_id = i, detection_date = \<lparr>datetime.year = 2023, datetime.month = 5, datetime.day = 15\<rparr>,
      metadata = \<lparr>Metadata.source = src\<rparr>\<rparr> ''data.parquet'' =
   Inr \<lparr>bucket = RAW, category = AVIAN_CASES,
         source = map (\<lambda>ch. if ch = CHR '' '' then CHR ''_'' else lower_char ch) src,
         year = ''2023'', month = ''05'', day = ''15'', filename = ''data.parquet''\<rparr>"
proof -
  let ?c = "\<lparr>case_id = i, detection_date = \<lparr>datetime.year = 2023, datetime.month = 5, datetime.day = 15\<rparr>,
      metadata = \<lparr>Metadata.source = src\<rparr>\<rparr>"
  have "1000 \<le> datetime.year (detection_date ?c)" "datetime.year (detection_date ?c) \<le> 9999"
    "1 \<le> datetime.month (detection_date ?c)" "datetime.month (detection_date ?c) \<le> 12"
    "1 \<le> datetime.day (detection_date ?c)" "datetime.day (detection_date ?c) \<le> 31"
    by simp_all
  from to_storage_key_valid [OF this, of "''data.parquet''"]
  show ?thesis by (simp add: str_2023 digits_example)
qed

text \<open>
  C7 (amended). \<open>to_storage_key\<close> for source "OIE WAHIS", detection date 2023-05-15 and
  filename "data.parquet" yields the path
  \<open>avian_cases/oie_wahis/year=2023/month=05/day=15/data.parquet\<close>. In general, for a
  source of characters below 256 and a detection date with a four-digit year, the source
  is lower-cased as \<open>str.lower\<close> does (\<open>A\<close> to \<open>Z\<close> and the capitals from U+00C0 to
  U+00DE) and each space (and no other character) is replaced by \<open>_\<close>, and month and
  day are written with two digits, zero-padded.
\<close>

theorem to_storage_key_normalizes:
  "(1000 \<le> datetime.year (detection_date c) \<and> datetime.year (detection_date c) \<le> 9999
      \<and> 1 \<le> datetime.month (detection_date c) \<and> datetime.month (detection_date c) \<le> 12
      \<and> 1 \<le> datetime.day (detection_date c) \<and> datetime.day (detection_date c) \<le> 31
    \<longrightarrow> to_storage_key c f =
           Inr \<lparr>bucket = RAW, category = AVIAN_CASES,
                 source = map (\<lambda>ch. if ch = CHR '' '' then CHR ''_'' else lower_char ch)
                            (Metadata.source (metadata c)),
                 year = str (datetime.year (detection_date c)),
                 month = [digit_char (datetime.month (detection_date c) div 10),
                          digit_char (datetime.month (detection_date c) mod 10)],
                 day = [digit_char (datetime.day (detection_date c) div 10),
                        digit_char (datetime.day (detection_date c) mod 10)],
                 filename = f\<rparr>)
   \<and> (\<exists>k. to_storage_key
              \<lparr>case_id = i, detection_date = \<lparr>datetime.year = 2023, datetime.month = 5, datetime.day = 15\<rparr>,
               metadata = \<lparr>Metadata.source = ''OIE WAHIS''\<rparr>\<rparr> ''data.parquet'' = Inr k
          \<and> full_path k = ''avian_cases/oie_wahis/year=2023/month=05/day=15/data.parquet'')"
proof (intro conjI impI)
  assume "1000 \<le> datetime.year (detection_date c) \<and> datetime.year (detection_date c) \<le> 9999
      \<and> 1 \<le> datetime.month (detection_date c) \<and> datetime.month (detection_date c) \<le> 12
      \<and> 1 \<le> datetime.day (detection_date c) \<and> datetime.day (detection_date c) \<le> 31"
  then show "to_storage_key c f =
           Inr \<lparr>bucket = RAW, category = AVIAN_CASES,
                 source = map (\<lambda>ch. if ch = CHR '' '' then CHR ''_'' else lower_char ch)
                            (Metadata.source (metadata c)),
                 year = str (datetime.year (detection_date c)),
                 month = [digit_char (datetime.month (detection_date c) div 10),
                          digit_char (datetime.month (detection_date c) mod 10)],
                 day = [digit_char (datetime.day (detection_date c) div 10),
                        digit_char (datetime.day (detection_date c) mod 10)],
                 filename = f\<rparr>"
    using to_storage_key_valid [of c f] by blast
next
  show "\<exists>k. to_storage_key
              \<lparr>case_id = i, detection_date = \<lparr>datetime.year = 2023, datetime.month = 5, datetime.day = 15\<rparr>,
               metadata = \<lparr>Metadata.source = ''OIE WAHIS''\<rparr>\<rparr> ''data.parquet'' = Inr k
          \<and> full_path k = ''avian_cases/oie_wahis/year=2023/month=05/day=15/data.parquet''"
    unfolding to_storage_key_example normalize_example by (simp add: full_path_def)
qed

theorem to_storage_key_normalizes_witness:
  "to_storage_key
     \<lparr>case_id = ''c1'', detection_date = \<lparr>datetime.year = 2023, datetime.month = 5, datetime.day = 15\<rparr>,
      metadata = \<lparr>Metadata.source = ''OIE WAHIS''\<rparr>\<rparr> ''data.parquet'' =
   Inr \<lparr>bucket = RAW, category = AVIAN_CASES, source = ''oie_wahis'',
         year = ''2023'', month = ''05'', day = ''15'', filename = ''data.parquet''\<rparr>"
  using to_storage_key_normalizes
    [of "\<lparr>case_id = ''c1'', detection_date = \<lparr>datetime.year = 2023, datetime.month = 5, datetime.day = 15\<rparr>,
          metadata = \<lparr>Metadata.source = ''OIE WAHIS''\<rparr>\<rparr>" "''data.parquet''"]
  by (simp add: str_2023 digits_example lower_char_examples)

text \<open>
  C7 as stated fails: the hyphen of the source "WHO-EU" is not alphanumeric, and it is
  kept in the source of the key.
\<close>

theorem to_storage_key_source_counterexample:
  "to_storage_key
     \<lparr>case_id = ''c1'', detection_date = \<lparr>datetime.year = 2023, datetime.month = 5, datetime.day = 15\<rparr>,
      metadata = \<lparr>Metadata.source = ''WHO-EU''\<rparr>\<rparr> ''data.parquet'' =
   Inr \<lparr>bucket = RAW, category = AVIAN_CASES, source = ''who-eu'',
         year = ''2023'', month = ''05'', day = ''15'', filename = ''data.parquet''\<rparr>"
  unfolding to_storage_key_example normalize_example2 by simp

section \<open>Converting tables to models\<close>












section \<open>Inserting staged rows\<close>

lemma execute_cases:
  "execute f s r = Inr x \<Longrightarrow> f s = None \<and> r = Inr x"
  by (auto simp: execute_def split: option.splits)

lemma execute_Inr_D: "execute f s r = Inr x \<Longrightarrow> r = Inr x"
  by (auto simp: execute_def split: option.splits)

lemma execute_Inr_fault: "execute f s r = Inr x \<Longrightarrow> f s = None"
  by (auto simp: execute_def split: option.splits)

lemma execute_isl: "r = Inl e \<Longrightarrow> \<exists>e'. execute f s r = Inl e'"
  by (cases "f s") (simp_all add: execute_def)

lemma resolve_column_ambiguous:
  "c \<in> set a \<Longrightarrow> c \<in> set b \<Longrightarrow> resolve_column [a, b] c = Inl (BinderException c)"
  by (simp add: resolve_column_def upt_rec [of 0] upt_rec [of 1] upt_rec [of "Suc 0"])

lemma resolve_columns_Inl:
  "c \<in> set cs \<Longrightarrow> resolve_column scope c = Inl e \<Longrightarrow> \<exists>e'. resolve_columns scope cs = Inl e'"
  by (induction cs) (auto split: sum.splits)

lemma insert_select_anti_join_raises:
  assumes "tables c table = Some t" and "pk \<in> set (column_names t)"
  shows "\<exists>e. insert_select_anti_join c table (column_names t) temp pk = Inl e"
proof (cases "temp_tables c temp")
  case None
  then show ?thesis by (simp add: insert_select_anti_join_def)
next
  case (Some s)
  show ?thesis
  proof (cases "pk \<in> set (df_columns s)")
    case False
    with Some assms show ?thesis by (simp add: insert_select_anti_join_def)
  next
    case True
    have "resolve_column [df_columns s, column_names t] pk = Inl (BinderException pk)"
      using True assms(2) by (rule resolve_column_ambiguous)
    then obtain e where "resolve_columns [df_columns s, column_names t] (column_names t) = Inl e"
      using resolve_columns_Inl [OF assms(2)] by blast
    with Some assms True show ?thesis by (simp add: insert_select_anti_join_def)
  qed
qed

lemma get_primary_key_Some:
  assumes "get_primary_key env c table = Some pk"
  shows "\<exists>t. tables c table = Some t \<and> pk \<in> set (column_names t)"
proof (cases "execute (fault env) AtPrimaryKey (pragma_table_info c table)")
  case (Inl e)
  with assms show ?thesis by (simp add: get_primary_key_def)
next
  case (Inr info)
  then have p: "pragma_table_info c table = Inr info" by (rule execute_Inr_D)
  then obtain t where t: "tables c table = Some t" "info = table_info t"
    by (cases "tables c table") (simp_all add: pragma_table_info_def)
  show ?thesis
  proof (cases "filter snd info")
    case Nil
    with assms Inr show ?thesis by (simp add: get_primary_key_def)
  next
    case (Cons x rest)
    with assms Inr have "fst x = pk" by (cases x) (simp add: get_primary_key_def)
    moreover have "x \<in> set (filter snd info)" using Cons by simp
    then have "x \<in> set info" by simp
    ultimately have "pk \<in> fst ` set info" by (rule_tac x = x in image_eqI) simp_all
    with t show ?thesis by (simp add: column_names_def)
  qed
qed

lemma get_table_columns_Inr:
  "get_table_columns env c table = Inr cols \<Longrightarrow> tables c table = Some t \<Longrightarrow> cols = column_names t"
  by (auto simp: get_table_columns_def pragma_table_info_def column_names_def
      split: sum.splits dest!: execute_cases)

lemma insert_statement_primary_key_raises:
  assumes "get_primary_key env c table = Some pk" and "pk \<noteq> []"
  shows "\<exists>e. insert_statement env c table temp (PyBool True) = Inl e"
proof -
  obtain t where t: "tables c table = Some t" "pk \<in> set (column_names t)"
    using get_primary_key_Some [OF assms(1)] by blast
  show ?thesis
  proof (cases "get_table_columns env c table")
    case (Inl e)
    with assms show ?thesis by (simp add: insert_statement_def)
  next
    case (Inr cols)
    then have cols: "cols = column_names t" using t(1) by (rule get_table_columns_Inr)
    obtain e where "insert_select_anti_join c table cols temp pk = Inl e"
      using insert_select_anti_join_raises [OF t] cols by blast
    then have "\<exists>e'. execute (fault env) AtInsert (insert_select_anti_join c table cols temp pk) = Inl e'"
      by (rule execute_isl)
    with assms Inr show ?thesis by (simp add: insert_statement_def)
  qed
qed


lemma create_temporary_table_tables:
  "create_temporary_table c temp found = Inr c1 \<Longrightarrow> tables c1 = tables c"
  by (auto simp: create_temporary_table_def split: option.splits if_splits)

lemma get_primary_key_cong:
  "tables c1 = tables c \<Longrightarrow> get_primary_key env c1 table = get_primary_key env c table"
  by (simp add: get_primary_key_def pragma_table_info_def)

lemma insert_dataframe_primary_key_Inl:
  assumes "\<not> read_only self"
    and "get_primary_key env (conn self) table = Some pk"
    and "pk \<noteq> []"
  shows "\<exists>e s'. insert_dataframe env self table (PyBool True) caller_df = (Inl e, s')
           \<and> tables (conn s') = tables (conn self)"
proof -
  let ?temp = "''temp_insert_'' @ now env"
  let ?found = "if scan_all_frames env then caller_df else None"
  show ?thesis
  proof (cases "execute (fault env) AtCreateTemp
                  (create_temporary_table (conn self) ?temp ?found)")
    case (Inl e)
    with assms(1) show ?thesis by (simp add: insert_dataframe_def Let_def)
  next
    case c1: (Inr c1)
    have tb: "tables c1 = tables (conn self)"
      using execute_Inr_D [OF c1] by (rule create_temporary_table_tables)
    show ?thesis
    proof (cases "execute (fault env) AtCountBefore (select_count c1 table)")
      case (Inl e)
      with assms(1) c1 tb show ?thesis by (simp add: insert_dataframe_def Let_def)
    next
      case n: (Inr n)
      have "get_primary_key env c1 table = Some pk"
        using get_primary_key_cong [OF tb] assms(2) by simp
      then obtain e where "insert_statement env c1 table ?temp (PyBool True) = Inl e"
        using insert_statement_primary_key_raises [OF _ assms(3)] by blast
      with assms(1) c1 n tb show ?thesis by (simp add: insert_dataframe_def Let_def)
    qed
  qed
qed

lemma get_primary_key_flagged:
  assumes "fault env AtPrimaryKey = None" and "tables c table = Some t"
    and "has_primary_key t"
  shows "\<exists>pk. get_primary_key env c table = Some pk \<and> pk \<in> set (column_names t)"
proof -
  from assms(3) obtain x where x: "x \<in> set (table_info t)" "snd x"
    by (auto simp: has_primary_key_def list_ex_iff)
  then have "filter snd (table_info t) \<noteq> []"
    by (simp add: filter_empty_conv) blast
  then obtain y rest where y: "filter snd (table_info t) = y # rest"
    by (cases "filter snd (table_info t)") simp_all
  have g: "get_primary_key env c table = Some (fst y)"
    using assms(1,2) y by (cases y) (simp add: get_primary_key_def execute_def pragma_table_info_def)
  then show ?thesis
    using get_primary_key_Some [OF g] assms(2) by simp
qed


text \<open>
  C2, the code at the failing inputs. On a writable client, for a table with a primary
  key (and column names that are not empty), \<open>insert_dataframe\<close> with
  \<open>avoid_duplicates = True\<close> raises, whatever is staged, and leaves the table as it was:
  the key column is a column of both relations of the join, so the unqualified columns
  of the \<open>SELECT\<close> list do not resolve. The claim says that the staged rows with a new
  key are inserted and counted.
\<close>

theorem insert_dataframe_primary_key_raises:
  assumes "\<not> read_only self"
    and "tables (conn self) table = Some t"
    and "has_primary_key t"
    and "[] \<notin> set (column_names t)"
    and "fault env AtPrimaryKey = None"
  shows "\<exists>e s'. insert_dataframe env self table (PyBool True) caller_df = (Inl e, s')
           \<and> tables (conn s') = tables (conn self)"
proof -
  obtain pk where pk: "get_primary_key env (conn self) table = Some pk"
      "pk \<in> set (column_names t)"
    using get_primary_key_flagged [OF assms(5,2,3)] by blast
  with assms(4) have "pk \<noteq> []" by auto
  with assms(1) pk(1) show ?thesis by (rule insert_dataframe_primary_key_Inl)
qed

lemma example_insert_dataframe:
  "fst (insert_dataframe example_env example_client ''avian_cases'' (PyBool True)
          (Some staged_rows)) = Inl (BinderException ''case_id'')"
  by (simp add: insert_dataframe_def example_env_def example_client_def staged_rows_def
      example_table_def execute_def create_temporary_table_def select_count_def
      insert_statement_def get_primary_key_def pragma_table_info_def get_table_columns_def
      insert_select_anti_join_def column_names_def resolve_column_def
      upt_rec [of 0] upt_rec [of 1] upt_rec [of "Suc 0"])

theorem insert_dataframe_primary_key_raises_witness:
  "\<exists>e s'. insert_dataframe example_env example_client ''avian_cases'' (PyBool True)
             (Some staged_rows) = (Inl e, s')
          \<and> tables (conn s') ''avian_cases'' = Some example_table"
proof -
  have 1: "\<not> read_only example_client" by (simp add: example_client_def)
  have 2: "tables (conn example_client) ''avian_cases'' = Some example_table"
    by (simp add: example_client_def)
  have 3: "has_primary_key example_table"
    by (simp add: has_primary_key_def example_table_def)
  have 4: "[] \<notin> set (column_names example_table)"
    by (simp add: column_names_def example_table_def)
  have 5: "fault example_env AtPrimaryKey = None" by (simp add: example_env_def)
  from insert_dataframe_primary_key_raises [OF 1 2 3 4 5, of "Some staged_rows"] 2
  show ?thesis by auto
qed

section \<open>Synchronizing a prefix with a table\<close>

lemma insert_dataframe_PyDataFrame_Inl:
  assumes "\<not> read_only self"
  shows "\<exists>e s'. insert_dataframe env self table (PyDataFrame df) caller_df = (Inl e, s')
           \<and> tables (conn s') = tables (conn self) \<and> read_only s' = read_only self"
proof -
  let ?temp = "''temp_insert_'' @ now env"
  let ?found = "if scan_all_frames env then caller_df else None"
  show ?thesis
  proof (cases "execute (fault env) AtCreateTemp
                  (create_temporary_table (conn self) ?temp ?found)")
    case (Inl e)
    with assms(1) show ?thesis by (simp add: insert_dataframe_def Let_def)
  next
    case c1: (Inr c1)
    have tb: "tables c1 = tables (conn self)"
      using execute_Inr_D [OF c1] by (rule create_temporary_table_tables)
    show ?thesis
    proof (cases "execute (fault env) AtCountBefore (select_count c1 table)")
      case (Inl e)
      with assms(1) c1 tb show ?thesis by (simp add: insert_dataframe_def Let_def)
    next
      case n: (Inr n)
      have "insert_statement env c1 table ?temp (PyDataFrame df) = Inl (ValueError AmbiguousTruthValue)"
        by (simp add: insert_statement_def)
      with assms(1) c1 n tb show ?thesis by (simp add: insert_dataframe_def Let_def)
    qed
  qed
qed

lemma load_storage_to_database_Inl:
  assumes "\<not> read_only db"
    and "get_parquet_uris env bucket_name prefix = Inr uris" and "uris \<noteq> []"
    and "read_external_parquet env (conn db) uris table = Inr df" and "\<not> df_empty df"
  shows "\<exists>e db'. load_storage_to_database env db bucket_name prefix table = (Inl e, db')
           \<and> tables (conn db') = tables (conn db) \<and> read_only db' = read_only db"
  using assms insert_dataframe_PyDataFrame_Inl [OF assms(1), of env table df "Some df"]
  by (simp add: load_storage_to_database_def)

lemma get_parquet_uris_cong:
  "list_objects env' = list_objects env \<Longrightarrow>
   get_parquet_uris env' b p = get_parquet_uris env b p"
  by (simp add: get_parquet_uris_def list_parquet_files_def)

lemma get_table_columns_cong:
  "fault env' AtTableColumns = fault env AtTableColumns \<Longrightarrow>
   tables c' = tables c \<Longrightarrow>
   get_table_columns env' c' t = get_table_columns env c t"
  by (simp add: get_table_columns_def execute_def pragma_table_info_def)

lemma read_external_parquet_cong:
  "read_parquet env' = read_parquet env \<Longrightarrow>
   fault env' AtTableColumns = fault env AtTableColumns \<Longrightarrow>
   tables c' = tables c \<Longrightarrow>
   read_external_parquet env' c' uris t = read_external_parquet env c uris t"
  using get_table_columns_cong [of env' env c' c t]
  by (simp add: read_external_parquet_def split: sum.split)

text \<open>
  C1, the code at the failing inputs. On a writable client, when the prefix holds
  parquet objects whose rows are not empty, \<open>load_storage_to_database\<close> raises, and a
  second run over the unchanged prefix raises again: \<open>insert_dataframe\<close> receives the
  DataFrame as \<open>avoid_duplicates\<close>, and its truth value is an error. The claim says that
  the second run returns 0.
\<close>

theorem load_storage_to_database_raises_twice:
  assumes "\<not> read_only db"
    and "get_parquet_uris env bucket_name prefix = Inr uris" and "uris \<noteq> []"
    and "read_external_parquet env (conn db) uris table = Inr df" and "\<not> df_empty df"
    and "list_objects env' = list_objects env"
    and "read_parquet env' = read_parquet env"
    and "fault env' AtTableColumns = fault env AtTableColumns"
  shows "\<exists>e1 db1 e2 db2.
           load_storage_to_database env db bucket_name prefix table = (Inl e1, db1)
         \<and> load_storage_to_database env' db1 bucket_name prefix table = (Inl e2, db2)"
proof -
  obtain e1 db1 where 1: "load_storage_to_database env db bucket_name prefix table = (Inl e1, db1)"
    and tb: "tables (conn db1) = tables (conn db)" and ro: "read_only db1 = read_only db"
    using load_storage_to_database_Inl [OF assms(1-5)] by blast
  have a: "\<not> read_only db1" using ro assms(1) by simp
  have b: "get_parquet_uris env' bucket_name prefix = Inr uris"
    using get_parquet_uris_cong [OF assms(6)] assms(2) by simp
  have c: "read_external_parquet env' (conn db1) uris table = Inr df"
    using read_external_parquet_cong [OF assms(7,8) tb] assms(4) by simp
  obtain e2 db2 where "load_storage_to_database env' db1 bucket_name prefix table = (Inl e2, db2)"
    using load_storage_to_database_Inl [OF a b assms(3) c assms(5)] by blast
  with 1 show ?thesis by blast
qed

lemma example_uris:
  "get_parquet_uris example_env ''raw'' ''avian_cases'' =
     Inr [''s3://raw/avian_cases/data_1.parquet'']"
  by (simp add: get_parquet_uris_def list_parquet_files_def example_env_def endswith_def)

lemma example_read:
  "read_external_parquet example_env (conn example_client)
     [''s3://raw/avian_cases/data_1.parquet''] ''avian_cases'' = Inr staged_rows"
  by (simp add: read_external_parquet_def example_env_def example_client_def
      get_table_columns_def execute_def pragma_table_info_def example_table_def
      staged_rows_def select_columns_def cell_of_def)

lemma example_first_run:
  "fst (load_storage_to_database example_env example_client ''raw'' ''avian_cases''
          ''avian_cases'') = Inl (ValueError AmbiguousTruthValue)"
  unfolding load_storage_to_database_def example_uris
  by (simp add: example_read)
    (simp add: insert_dataframe_def example_env_def example_client_def staged_rows_def
      example_table_def execute_def create_temporary_table_def select_count_def
      insert_statement_def df_empty_def)

theorem load_storage_to_database_raises_twice_witness:
  "\<exists>e1 db1 e2 db2.
     load_storage_to_database example_env example_client ''raw'' ''avian_cases''
       ''avian_cases'' = (Inl e1, db1)
   \<and> load_storage_to_database (example_env\<lparr>now := ''20230515120001''\<rparr>) db1 ''raw''
       ''avian_cases'' ''avian_cases'' = (Inl e2, db2)"
proof -
  have 1: "\<not> read_only example_client" by (simp add: example_client_def)
  have 3: "[''s3://raw/avian_cases/data_1.parquet''] \<noteq> []" by simp
  have 5: "\<not> df_empty staged_rows" by (simp add: df_empty_def staged_rows_def)
  have 6: "list_objects (example_env\<lparr>now := ''20230515120001''\<rparr>) = list_objects example_env"
    by simp
  have 7: "read_parquet (example_env\<lparr>now := ''20230515120001''\<rparr>) = read_parquet example_env"
    by simp
  have 8: "fault (example_env\<lparr>now := ''20230515120001''\<rparr>) AtTableColumns
             = fault example_env AtTableColumns"
    by simp
  show ?thesis
    by (rule load_storage_to_database_raises_twice [OF 1 example_uris 3 example_read 5 6 7 8])
qed

lemma get_parquet_uris_Inl:
  "list_objects env b p = Inl e \<Longrightarrow> get_parquet_uris env b p = Inl e"
  by (simp add: get_parquet_uris_def list_parquet_files_def)

lemma read_external_parquet_Inl:
  "uris \<noteq> [] \<Longrightarrow> read_parquet env uris = Inl e \<Longrightarrow>
   read_external_parquet env c uris t = Inl e"
  by (simp add: read_external_parquet_def)

lemma read_external_parquet_columns_Inl:
  "uris \<noteq> [] \<Longrightarrow> read_parquet env uris = Inr df \<Longrightarrow>
   get_table_columns env c t = Inl e \<Longrightarrow>
   read_external_parquet env c uris t = Inl e"
  by (simp add: read_external_parquet_def)

lemma get_primary_key_swallows:
  "fault env AtPrimaryKey = Some e \<Longrightarrow> get_primary_key env c table = None"
  by (simp add: get_primary_key_def execute_def)

lemma insert_dataframe_read_only:
  "read_only self \<Longrightarrow> insert_dataframe env self table flag caller_df = (Inr 0, self)"
  by (simp add: insert_dataframe_def)

lemma load_storage_to_database_Inr:
  assumes "load_storage_to_database env db b p t = (Inr n, db')"
  shows "n = 0 \<and> db' = db
       \<and> (\<exists>us. get_parquet_uris env b p = Inr us
             \<and> (us = [] \<or> (\<exists>d. read_external_parquet env (conn db) us t = Inr d
                               \<and> (df_empty d \<or> read_only db))))"
proof (cases "get_parquet_uris env b p")
  case (Inl e)
  with assms show ?thesis by (simp add: load_storage_to_database_def)
next
  case us: (Inr us)
  show ?thesis
  proof (cases "us = []")
    case True
    with assms us show ?thesis by (simp add: load_storage_to_database_def)
  next
    case ne: False
    show ?thesis
    proof (cases "read_external_parquet env (conn db) us t")
      case (Inl e)
      with assms us ne show ?thesis by (simp add: load_storage_to_database_def)
    next
      case d: (Inr d)
      show ?thesis
      proof (cases "df_empty d")
        case True
        with assms us ne d show ?thesis by (simp add: load_storage_to_database_def)
      next
        case False
        with assms us ne d
        have i: "insert_dataframe env db t (PyDataFrame d) (Some d) = (Inr n, db')"
          by (simp add: load_storage_to_database_def)
        show ?thesis
        proof (cases "read_only db")
          case True
          with i us d show ?thesis by (simp add: insert_dataframe_read_only)
        next
          case False
          from insert_dataframe_PyDataFrame_Inl [OF False, of env t d "Some d"] i
          show ?thesis by simp
        qed
      qed
    qed
  qed
qed

lemma insert_statement_Inr:
  assumes "insert_statement env c table temp flag = Inr c2"
  shows "\<exists>fl cols. py_truth flag = Inr fl \<and> get_table_columns env c table = Inr cols
           \<and> fault env AtTableColumns = None \<and> fault env AtInsert = None
           \<and> (insert_select c table cols temp = Inr c2
                \<or> (\<exists>pk. fl \<and> get_primary_key env c table = Some pk \<and> pk \<noteq> []
                      \<and> insert_select_anti_join c table cols temp pk = Inr c2))"
proof -
  from assms obtain fl where fl: "py_truth flag = Inr fl"
    by (cases "py_truth flag") (simp_all add: insert_statement_def)
  from assms fl obtain cols where cols: "get_table_columns env c table = Inr cols"
    by (cases "get_table_columns env c table")
       (simp_all add: insert_statement_def split: option.splits if_splits)
  have tc: "fault env AtTableColumns = None"
    using cols
    by (cases "fault env AtTableColumns") (simp_all add: get_table_columns_def execute_def)
  from assms fl cols
  have "execute (fault env) AtInsert (insert_select c table cols temp) = Inr c2
      \<or> (\<exists>pk. fl \<and> get_primary_key env c table = Some pk \<and> pk \<noteq> []
            \<and> execute (fault env) AtInsert (insert_select_anti_join c table cols temp pk) = Inr c2)"
    by (auto simp: insert_statement_def split: option.splits if_splits)
  then show ?thesis
    using fl cols tc by (auto dest: execute_Inr_D execute_Inr_fault)
qed

lemma insert_dataframe_Inr:
  assumes "\<not> read_only self"
    and "insert_dataframe env self table flag caller_df = (Inr n, self')"
  shows "fault env AtCreateTemp = None \<and> fault env AtCountBefore = None
       \<and> fault env AtTableColumns = None \<and> fault env AtInsert = None
       \<and> fault env AtDropTemp = None \<and> fault env AtCountAfter = None
       \<and> (\<exists>c1 k c2 c3 k'.
             create_temporary_table (conn self) (''temp_insert_'' @ now env)
               (if scan_all_frames env then caller_df else None) = Inr c1
           \<and> select_count c1 table = Inr k
           \<and> insert_statement env c1 table (''temp_insert_'' @ now env) flag = Inr c2
           \<and> drop_table c2 (''temp_insert_'' @ now env) = Inr c3
           \<and> select_count c3 table = Inr k'
           \<and> n = int k' - int k \<and> self' = self\<lparr>conn := c3\<rparr>)"
proof -
  let ?temp = "''temp_insert_'' @ now env"
  let ?found = "if scan_all_frames env then caller_df else None"
  from assms obtain c1 where c1: "execute (fault env) AtCreateTemp
        (create_temporary_table (conn self) ?temp ?found) = Inr c1"
    by (auto simp: insert_dataframe_def Let_def split: sum.splits)
  from assms c1 obtain k where k: "execute (fault env) AtCountBefore (select_count c1 table) = Inr k"
    by (auto simp: insert_dataframe_def Let_def split: sum.splits)
  from assms c1 k obtain c2 where c2: "insert_statement env c1 table ?temp flag = Inr c2"
    by (auto simp: insert_dataframe_def Let_def split: sum.splits)
  from assms c1 k c2 obtain c3 where c3: "execute (fault env) AtDropTemp (drop_table c2 ?temp) = Inr c3"
    by (auto simp: insert_dataframe_def Let_def split: sum.splits)
  from assms c1 k c2 c3 obtain k' where k': "execute (fault env) AtCountAfter (select_count c3 table) = Inr k'"
    by (auto simp: insert_dataframe_def Let_def split: sum.splits)
  from assms c1 k c2 c3 k' have r: "n = int k' - int k" "self' = self\<lparr>conn := c3\<rparr>"
    by (auto simp: insert_dataframe_def Let_def)
  have f: "fault env AtCreateTemp = None" "fault env AtCountBefore = None"
    "fault env AtDropTemp = None" "fault env AtCountAfter = None"
    using execute_Inr_fault [OF c1] execute_Inr_fault [OF k] execute_Inr_fault [OF c3]
      execute_Inr_fault [OF k'] by simp_all
  have g: "fault env AtTableColumns = None" "fault env AtInsert = None"
    using insert_statement_Inr [OF c2] by auto
  show ?thesis
    using f g execute_Inr_D [OF c1] execute_Inr_D [OF k] c2 execute_Inr_D [OF c3]
      execute_Inr_D [OF k'] r
    by blast
qed

text \<open>
  C5 (amended). A failure of the listing of the bucket, of the reading of the parquet
  files or of the reading of the table's columns ends \<open>load_storage_to_database\<close>, and
  otherwise its outcome is that of \<open>insert_dataframe\<close>. In \<open>insert_dataframe\<close> on a
  writable client, the first statement that fails (creating the temporary table,
  counting, taking the truth value of \<open>avoid_duplicates\<close>, reading the columns, either
  \<open>INSERT\<close>, dropping the temporary table, counting again) ends the call. In each case the
  caller receives that same exception, not wrapped in another one, and the client is as
  the statements before it left it. No failure other than that of the primary-key lookup
  is swallowed: a run of \<open>load_storage_to_database\<close> that returns a count returns 0, with
  the client unchanged, after a listing and a reading that did not fail; and a call of
  \<open>insert_dataframe\<close> that returns a count had no fault at any statement other than the
  primary-key lookup, and each of its statements succeeded.
\<close>

theorem load_storage_to_database_propagates:
  "(list_objects env b p = Inl e \<longrightarrow>
      load_storage_to_database env db b p t = (Inl e, db))
   \<and> (get_parquet_uris env b p = Inr uris \<and> uris \<noteq> [] \<and> read_parquet env uris = Inl e \<longrightarrow>
      load_storage_to_database env db b p t = (Inl e, db))
   \<and> (get_parquet_uris env b p = Inr uris \<and> uris \<noteq> [] \<and> read_parquet env uris = Inr df0
        \<and> get_table_columns env (conn db) t = Inl e \<longrightarrow>
      load_storage_to_database env db b p t = (Inl e, db))
   \<and> (get_parquet_uris env b p = Inr uris \<and> uris \<noteq> []
        \<and> read_external_parquet env (conn db) uris t = Inr df \<and> \<not> df_empty df \<longrightarrow>
      load_storage_to_database env db b p t =
        insert_dataframe env db t (PyDataFrame df) (Some df))
   \<and> (\<not> read_only self
        \<and> execute (fault env) AtCreateTemp
            (create_temporary_table (conn self) (''temp_insert_'' @ now env)
               (if scan_all_frames env then caller_df else None)) = Inl e \<longrightarrow>
      insert_dataframe env self table flag caller_df = (Inl e, self))
   \<and> (\<not> read_only self
        \<and> execute (fault env) AtCreateTemp
            (create_temporary_table (conn self) (''temp_insert_'' @ now env)
               (if scan_all_frames env then caller_df else None)) = Inr c1
        \<and> execute (fault env) AtCountBefore (select_count c1 table) = Inl e \<longrightarrow>
      insert_dataframe env self table flag caller_df = (Inl e, self\<lparr>conn := c1\<rparr>))
   \<and> (\<not> read_only self
        \<and> execute (fault env) AtCreateTemp
            (create_temporary_table (conn self) (''temp_insert_'' @ now env)
               (if scan_all_frames env then caller_df else None)) = Inr c1
        \<and> execute (fault env) AtCountBefore (select_count c1 table) = Inr k
        \<and> insert_statement env c1 table (''temp_insert_'' @ now env) flag = Inl e \<longrightarrow>
      insert_dataframe env self table flag caller_df = (Inl e, self\<lparr>conn := c1\<rparr>))
   \<and> (\<not> read_only self
        \<and> execute (fault env) AtCreateTemp
            (create_temporary_table (conn self) (''temp_insert_'' @ now env)
               (if scan_all_frames env then caller_df else None)) = Inr c1
        \<and> execute (fault env) AtCountBefore (select_count c1 table) = Inr k
        \<and> insert_statement env c1 table (''temp_insert_'' @ now env) flag = Inr c2
        \<and> execute (fault env) AtDropTemp (drop_table c2 (''temp_insert_'' @ now env)) = Inl e \<longrightarrow>
      insert_dataframe env self table flag caller_df = (Inl e, self\<lparr>conn := c2\<rparr>))
   \<and> (\<not> read_only self
        \<and> execute (fault env) AtCreateTemp
            (create_temporary_table (conn self) (''temp_insert_'' @ now env)
               (if scan_all_frames env then caller_df else None)) = Inr c1
        \<and> execute (fault env) AtCountBefore (select_count c1 table) = Inr k
        \<and> insert_statement env c1 table (''temp_insert_'' @ now env) flag = Inr c2
        \<and> execute (fault env) AtDropTemp (drop_table c2 (''temp_insert_'' @ now env)) = Inr c3
        \<and> execute (fault env) AtCountAfter (select_count c3 table) = Inl e \<longrightarrow>
      insert_dataframe env self table flag caller_df = (Inl e, self\<lparr>conn := c3\<rparr>))
   \<and> (py_truth flag = Inl e \<longrightarrow> insert_statement env c table temp flag = Inl e)
   \<and> (py_truth flag = Inr fl \<and> get_table_columns env c table = Inl e \<longrightarrow>
      insert_statement env c table temp flag = Inl e)
   \<and> (py_truth flag = Inr True \<and> get_primary_key env c table = Some pk \<and> pk \<noteq> []
        \<and> get_table_columns env c table = Inr cols
        \<and> execute (fault env) AtInsert (insert_select_anti_join c table cols temp pk) = Inl e \<longrightarrow>
      insert_statement env c table temp flag = Inl e)
   \<and> (py_truth flag = Inr fl
        \<and> (\<not> fl \<or> get_primary_key env c table = None \<or> get_primary_key env c table = Some [])
        \<and> get_table_columns env c table = Inr cols
        \<and> execute (fault env) AtInsert (insert_select c table cols temp) = Inl e \<longrightarrow>
      insert_statement env c table temp flag = Inl e)
   \<and> (load_storage_to_database env db b p t = (Inr n, db') \<longrightarrow>
      n = 0 \<and> db' = db
      \<and> (\<exists>us. get_parquet_uris env b p = Inr us
            \<and> (us = [] \<or> (\<exists>d. read_external_parquet env (conn db) us t = Inr d
                              \<and> (df_empty d \<or> read_only db)))))
   \<and> (\<not> read_only self \<and> insert_dataframe env self table flag caller_df = (Inr n, self') \<longrightarrow>
      fault env AtCreateTemp = None \<and> fault env AtCountBefore = None
      \<and> fault env AtTableColumns = None \<and> fault env AtInsert = None
      \<and> fault env AtDropTemp = None \<and> fault env AtCountAfter = None
      \<and> (\<exists>c1 k c2 c3 k'.
            create_temporary_table (conn self) (''temp_insert_'' @ now env)
              (if scan_all_frames env then caller_df else None) = Inr c1
          \<and> select_count c1 table = Inr k
          \<and> insert_statement env c1 table (''temp_insert_'' @ now env) flag = Inr c2
          \<and> drop_table c2 (''temp_insert_'' @ now env) = Inr c3
          \<and> select_count c3 table = Inr k'
          \<and> n = int k' - int k \<and> self' = self\<lparr>conn := c3\<rparr>))
   \<and> (insert_statement env c table temp flag = Inr c2 \<longrightarrow>
      (\<exists>fl cols. py_truth flag = Inr fl \<and> get_table_columns env c table = Inr cols
         \<and> fault env AtTableColumns = None \<and> fault env AtInsert = None
         \<and> (insert_select c table cols temp = Inr c2
              \<or> (\<exists>pk. fl \<and> get_primary_key env c table = Some pk \<and> pk \<noteq> []
                    \<and> insert_select_anti_join c table cols temp pk = Inr c2))))"
proof (intro conjI impI)
  assume "list_objects env b p = Inl e"
  then show "load_storage_to_database env db b p t = (Inl e, db)"
    by (simp add: load_storage_to_database_def get_parquet_uris_Inl)
next
  assume "get_parquet_uris env b p = Inr uris \<and> uris \<noteq> [] \<and> read_parquet env uris = Inl e"
  then show "load_storage_to_database env db b p t = (Inl e, db)"
    by (simp add: load_storage_to_database_def read_external_parquet_Inl)
next
  assume "get_parquet_uris env b p = Inr uris \<and> uris \<noteq> [] \<and> read_parquet env uris = Inr df0
        \<and> get_table_columns env (conn db) t = Inl e"
  then show "load_storage_to_database env db b p t = (Inl e, db)"
    by (simp add: load_storage_to_database_def read_external_parquet_columns_Inl)
next
  assume "get_parquet_uris env b p = Inr uris \<and> uris \<noteq> []
        \<and> read_external_parquet env (conn db) uris t = Inr df \<and> \<not> df_empty df"
  then show "load_storage_to_database env db b p t =
        insert_dataframe env db t (PyDataFrame df) (Some df)"
    by (simp add: load_storage_to_database_def)
next
  assume "\<not> read_only self
        \<and> execute (fault env) AtCreateTemp
            (create_temporary_table (conn self) (''temp_insert_'' @ now env)
               (if scan_all_frames env then caller_df else None)) = Inl e"
  then show "insert_dataframe env self table flag caller_df = (Inl e, self)"
    by (simp add: insert_dataframe_def Let_def)
next
  assume "\<not> read_only self
        \<and> execute (fault env) AtCreateTemp
            (create_temporary_table (conn self) (''temp_insert_'' @ now env)
               (if scan_all_frames env then caller_df else None)) = Inr c1
        \<and> execute (fault env) AtCountBefore (select_count c1 table) = Inl e"
  then show "insert_dataframe env self table flag caller_df = (Inl e, self\<lparr>conn := c1\<rparr>)"
    by (simp add: insert_dataframe_def Let_def)
next
  assume "\<not> read_only self
        \<and> execute (fault env) AtCreateTemp
            (create_temporary_table (conn self) (''temp_insert_'' @ now env)
               (if scan_all_frames env then caller_df else None)) = Inr c1
        \<and> execute (fault env) AtCountBefore (select_count c1 table) = Inr k
        \<and> insert_statement env c1 table (''temp_insert_'' @ now env) flag = Inl e"
  then show "insert_dataframe env self table flag caller_df = (Inl e, self\<lparr>conn := c1\<rparr>)"
    by (simp add: insert_dataframe_def Let_def)
next
  assume "\<not> read_only self
        \<and> execute (fault env) AtCreateTemp
            (create_temporary_table (conn self) (''temp_insert_'' @ now env)
               (if scan_all_frames env then caller_df else None)) = Inr c1
        \<and> execute (fault env) AtCountBefore (select_count c1 table) = Inr k
        \<and> insert_statement env c1 table (''temp_insert_'' @ now env) flag = Inr c2
        \<and> execute (fault env) AtDropTemp (drop_table c2 (''temp_insert_'' @ now env)) = Inl e"
  then show "insert_dataframe env self table flag caller_df = (Inl e, self\<lparr>conn := c2\<rparr>)"
    by (simp add: insert_dataframe_def Let_def)
next
  assume "\<not> read_only self
        \<and> execute (fault env) AtCreateTemp
            (create_temporary_table (conn self) (''temp_insert_'' @ now env)
               (if scan_all_frames env then caller_df else None)) = Inr c1
        \<and> execute (fault env) AtCountBefore (select_count c1 table) = Inr k
        \<and> insert_statement env c1 table (''temp_insert_'' @ now env) flag = Inr c2
        \<and> execute (fault env) AtDropTemp (drop_table c2 (''temp_insert_'' @ now env)) = Inr c3
        \<and> execute (fault env) AtCountAfter (select_count c3 table) = Inl e"
  then show "insert_dataframe env self table flag caller_df = (Inl e, self\<lparr>conn := c3\<rparr>)"
    by (simp add: insert_dataframe_def Let_def)
next
  assume "py_truth flag = Inl e"
  then show "insert_statement env c table temp flag = Inl e"
    by (simp add: insert_statement_def)
next
  assume "py_truth flag = Inr fl \<and> get_table_columns env c table = Inl e"
  then show "insert_statement env c table temp flag = Inl e"
    by (simp add: insert_statement_def split: option.split)
next
  assume "py_truth flag = Inr True \<and> get_primary_key env c table = Some pk \<and> pk \<noteq> []
        \<and> get_table_columns env c table = Inr cols
        \<and> execute (fault env) AtInsert (insert_select_anti_join c table cols temp pk) = Inl e"
  then show "insert_statement env c table temp flag = Inl e"
    by (simp add: insert_statement_def)
next
  assume "py_truth flag = Inr fl
        \<and> (\<not> fl \<or> get_primary_key env c table = None \<or> get_primary_key env c table = Some [])
        \<and> get_table_columns env c table = Inr cols
        \<and> execute (fault env) AtInsert (insert_select c table cols temp) = Inl e"
  then show "insert_statement env c table temp flag = Inl e"
    by (auto simp: insert_statement_def)
next
  assume a: "load_storage_to_database env db b p t = (Inr n, db')"
  show "n = 0" "db' = db"
    "\<exists>us. get_parquet_uris env b p = Inr us
            \<and> (us = [] \<or> (\<exists>d. read_external_parquet env (conn db) us t = Inr d
                              \<and> (df_empty d \<or> read_only db)))"
    using load_storage_to_database_Inr [OF a] by simp_all
next
  assume a: "\<not> read_only self \<and> insert_dataframe env self table flag caller_df = (Inr n, self')"
  then have 1: "\<not> read_only self"
    and 2: "insert_dataframe env self table flag caller_df = (Inr n, self')" by simp_all
  note r = insert_dataframe_Inr [OF 1 2]
  show "fault env AtCreateTemp = None" "fault env AtCountBefore = None"
    "fault env AtTableColumns = None" "fault env AtInsert = None"
    "fault env AtDropTemp = None" "fault env AtCountAfter = None"
    using r by simp_all
  show "\<exists>c1 k c2 c3 k'.
            create_temporary_table (conn self) (''temp_insert_'' @ now env)
              (if scan_all_frames env then caller_df else None) = Inr c1
          \<and> select_count c1 table = Inr k
          \<and> insert_statement env c1 table (''temp_insert_'' @ now env) flag = Inr c2
          \<and> drop_table c2 (''temp_insert_'' @ now env) = Inr c3
          \<and> select_count c3 table = Inr k'
          \<and> n = int k' - int k \<and> self' = self\<lparr>conn := c3\<rparr>"
    using r by simp
next
  assume "insert_statement env c table temp flag = Inr c2"
  then show "\<exists>fl cols. py_truth flag = Inr fl \<and> get_table_columns env c table = Inr cols
         \<and> fault env AtTableColumns = None \<and> fault env AtInsert = None
         \<and> (insert_select c table cols temp = Inr c2
              \<or> (\<exists>pk. fl \<and> get_primary_key env c table = Some pk \<and> pk \<noteq> []
                    \<and> insert_select_anti_join c table cols temp pk = Inr c2))"
    by (rule insert_statement_Inr)
qed

lemma faulty_env_simps:
  "fault (faulty_env s e) s' = (if s' = s then Some e else None)"
  "now (faulty_env s e) = ''20230515120000''"
  "scan_all_frames (faulty_env s e)"
  "now example_env = ''20230515120000''"
  "scan_all_frames example_env"
  "fault example_env s' = None"
  by (simp_all add: faulty_env_def example_env_def)

lemma example_writable: "\<not> read_only example_client"
  by (simp add: example_client_def)

lemma example_create:
  "create_temporary_table (conn example_client) ''temp_insert_20230515120000''
     (Some new_rows) = Inr staged_conn"
  by (simp add: create_temporary_table_def staged_conn_def example_client_def new_rows_def)

lemma execute_fault: "fault env s = Some e \<Longrightarrow> execute (fault env) s r = Inl e"
  by (simp add: execute_def)

lemma get_table_columns_fault:
  "fault env AtTableColumns = Some e \<Longrightarrow> get_table_columns env c t = Inl e"
  by (simp add: get_table_columns_def execute_def)

lemma execute_no_fault: "fault env s = None \<Longrightarrow> execute (fault env) s r = r"
  by (simp add: execute_def)

lemma example_count_before: "select_count staged_conn ''avian_cases'' = Inr 1"
  by (simp add: select_count_def staged_conn_def example_client_def example_table_def)

lemma example_columns:
  "fault env AtTableColumns = None \<Longrightarrow>
   get_table_columns env staged_conn ''avian_cases'' = Inr [''case_id'', ''species'']"
  by (simp add: get_table_columns_def execute_def pragma_table_info_def staged_conn_def
      example_client_def example_table_def)

lemma example_primary_key:
  "fault env AtPrimaryKey = None \<Longrightarrow>
   get_primary_key env staged_conn ''avian_cases'' = Some ''case_id''"
  by (simp add: get_primary_key_def execute_def pragma_table_info_def staged_conn_def
      example_client_def example_table_def)

lemma example_anti_join:
  "insert_select_anti_join staged_conn ''avian_cases'' [''case_id'', ''species'']
     ''temp_insert_20230515120000'' ''case_id'' = Inl (BinderException ''case_id'')"
  by (simp add: insert_select_anti_join_def staged_conn_def example_client_def
      example_table_def new_rows_def column_names_def resolve_column_def
      upt_rec [of 0] upt_rec [of 1] upt_rec [of "Suc 0"])

lemma example_constraint_ok:
  "constraint_ok example_table (table_rows example_table @ df_rows new_rows)"
  by code_simp

lemma example_insert_select:
  "insert_select staged_conn ''avian_cases'' [''case_id'', ''species'']
     ''temp_insert_20230515120000'' = Inr inserted_conn"
proof -
  have r: "map (\<lambda>r. map (cell_of (df_columns new_rows) r) [''case_id'', ''species''])
             (df_rows new_rows) = df_rows new_rows"
    by (simp add: new_rows_def cell_of_def)
  have c: "resolve_columns [df_columns new_rows] [''case_id'', ''species''] = Inr [0, 0]"
    by (simp add: new_rows_def resolve_column_def upt_rec [of 0] upt_rec [of 1]
        upt_rec [of "Suc 0"])
  have t: "temp_tables staged_conn ''temp_insert_20230515120000'' = Some new_rows"
    "tables staged_conn ''avian_cases'' = Some example_table"
    by (simp_all add: staged_conn_def example_client_def)
  show ?thesis
    by (simp only: insert_select_def t option.case c sum.case r insert_rows_def
        example_constraint_ok if_True inserted_conn_def)
qed

lemma example_drop:
  "drop_table inserted_conn ''temp_insert_20230515120000'' = Inr final_conn"
  by (simp add: drop_table_def final_conn_def inserted_conn_def staged_conn_def)

lemma example_count_after: "select_count final_conn ''avian_cases'' = Inr 3"
  by (simp add: select_count_def final_conn_def inserted_conn_def staged_conn_def
      example_table_def new_rows_def)

lemma unreadable_uris:
  "get_parquet_uris unreadable_env ''raw'' ''avian_cases'' =
     Inr [''s3://raw/avian_cases/data_1.parquet'']"
  by (simp add: get_parquet_uris_def list_parquet_files_def unreadable_env_def example_env_def
      endswith_def)

lemma closed_uris:
  "get_parquet_uris closed_env ''raw'' ''avian_cases'' =
     Inr [''s3://raw/avian_cases/data_1.parquet'']"
  by (simp add: get_parquet_uris_def list_parquet_files_def closed_env_def example_env_def
      endswith_def)

theorem load_storage_to_database_propagates_witness:
  "load_storage_to_database failing_env example_client
       ''raw'' ''avian_cases'' ''avian_cases''
     = (Inl (S3Error ''NoSuchBucket''), example_client)
   \<and> load_storage_to_database unreadable_env example_client
       ''raw'' ''avian_cases'' ''avian_cases''
     = (Inl (IOException ''HTTP 403''), example_client)
   \<and> load_storage_to_database closed_env example_client
       ''raw'' ''avian_cases'' ''avian_cases''
     = (Inl (IOException ''closed''), example_client)
   \<and> (\<exists>db'. load_storage_to_database example_env example_client
       ''raw'' ''avian_cases'' ''avian_cases''
     = (Inl (ValueError AmbiguousTruthValue), db'))
   \<and> insert_dataframe (example_env\<lparr>scan_all_frames := False\<rparr>) example_client
       ''avian_cases'' (PyBool True) (Some new_rows)
     = (Inl (CatalogException ''df''), example_client)
   \<and> insert_dataframe (faulty_env AtCountBefore (IOException ''closed'')) example_client
       ''avian_cases'' (PyBool True) (Some new_rows)
     = (Inl (IOException ''closed''), example_client\<lparr>conn := staged_conn\<rparr>)
   \<and> insert_dataframe (faulty_env AtTableColumns (IOException ''closed'')) example_client
       ''avian_cases'' (PyBool True) (Some new_rows)
     = (Inl (IOException ''closed''), example_client\<lparr>conn := staged_conn\<rparr>)
   \<and> insert_dataframe example_env example_client
       ''avian_cases'' (PyBool True) (Some new_rows)
     = (Inl (BinderException ''case_id''), example_client\<lparr>conn := staged_conn\<rparr>)
   \<and> insert_dataframe (faulty_env AtInsert (IOException ''closed'')) example_client
       ''avian_cases'' (PyBool False) (Some new_rows)
     = (Inl (IOException ''closed''), example_client\<lparr>conn := staged_conn\<rparr>)
   \<and> insert_dataframe (faulty_env AtDropTemp (IOException ''closed'')) example_client
       ''avian_cases'' (PyBool False) (Some new_rows)
     = (Inl (IOException ''closed''), example_client\<lparr>conn := inserted_conn\<rparr>)
   \<and> insert_dataframe (faulty_env AtCountAfter (IOException ''closed'')) example_client
       ''avian_cases'' (PyBool False) (Some new_rows)
     = (Inl (IOException ''closed''), example_client\<lparr>conn := final_conn\<rparr>)
   \<and> load_storage_to_database (example_env\<lparr>list_objects := (\<lambda>b p. Inr [])\<rparr>) example_client
       ''raw'' ''avian_cases'' ''avian_cases''
     = (Inr 0, example_client)
   \<and> (\<exists>us. get_parquet_uris (example_env\<lparr>list_objects := (\<lambda>b p. Inr [])\<rparr>)
              ''raw'' ''avian_cases'' = Inr us
        \<and> (us = [] \<or> (\<exists>d. read_external_parquet
                 (example_env\<lparr>list_objects := (\<lambda>b p. Inr [])\<rparr>)
                 (conn example_client) us ''avian_cases'' = Inr d
               \<and> (df_empty d \<or> read_only example_client))))
   \<and> insert_dataframe example_env example_client
       ''avian_cases'' (PyBool False) (Some new_rows)
     = (Inr 2, example_client\<lparr>conn := final_conn\<rparr>)
   \<and> (\<exists>c1 k c2 c3 k'.
        create_temporary_table (conn example_client) (''temp_insert_'' @ now example_env)
          (if scan_all_frames example_env then Some new_rows else None) = Inr c1
      \<and> select_count c1 ''avian_cases'' = Inr k
      \<and> insert_statement example_env c1 ''avian_cases'' (''temp_insert_'' @ now example_env)
            (PyBool False) = Inr c2
      \<and> drop_table c2 (''temp_insert_'' @ now example_env) = Inr c3
      \<and> select_count c3 ''avian_cases'' = Inr k'
      \<and> (2::int) = int k' - int k
      \<and> example_client\<lparr>conn := final_conn\<rparr> = example_client\<lparr>conn := c3\<rparr>)
   \<and> insert_statement example_env staged_conn ''avian_cases''
       ''temp_insert_20230515120000'' (PyBool False)
     = Inr inserted_conn
   \<and> (\<exists>fl cols. py_truth (PyBool False) = Inr fl
        \<and> get_table_columns example_env staged_conn ''avian_cases'' = Inr cols
        \<and> fault example_env AtTableColumns = None \<and> fault example_env AtInsert = None
        \<and> (insert_select staged_conn ''avian_cases'' cols ''temp_insert_20230515120000''
               = Inr inserted_conn
             \<or> (\<exists>pk. fl \<and> get_primary_key example_env staged_conn ''avian_cases'' = Some pk
                   \<and> pk \<noteq> []
                   \<and> insert_select_anti_join staged_conn ''avian_cases'' cols
                        ''temp_insert_20230515120000'' pk
                        = Inr inserted_conn)))"
proof -
  note ev = faulty_env_simps example_writable example_create example_count_before
    example_columns example_primary_key example_anti_join example_insert_select example_drop
    example_count_after execute_fault execute_no_fault get_table_columns_fault
  have w1: "load_storage_to_database failing_env example_client
       ''raw'' ''avian_cases'' ''avian_cases''
     = (Inl (S3Error ''NoSuchBucket''), example_client)"
    by (rule load_storage_to_database_propagates
          [THEN conjunct1, THEN mp])
       (simp add: failing_env_def)
  have w2: "load_storage_to_database unreadable_env example_client
       ''raw'' ''avian_cases'' ''avian_cases''
     = (Inl (IOException ''HTTP 403''), example_client)"
    by (rule load_storage_to_database_propagates
          [where uris = "[''s3://raw/avian_cases/data_1.parquet'']", THEN conjunct2, THEN conjunct1, THEN mp])
       (simp add: unreadable_uris, simp add: unreadable_env_def)
  have w3: "load_storage_to_database closed_env example_client
       ''raw'' ''avian_cases'' ''avian_cases''
     = (Inl (IOException ''closed''), example_client)"
    by (rule load_storage_to_database_propagates
          [where uris = "[''s3://raw/avian_cases/data_1.parquet'']" and ?df0.0 = staged_rows,
           THEN conjunct2, THEN conjunct2, THEN conjunct1, THEN mp])
       (simp add: closed_uris, simp add: closed_env_def example_env_def get_table_columns_def
          execute_def)
  let ?staged = "(conn example_client)\<lparr>temp_tables :=
      (temp_tables (conn example_client))(''temp_insert_20230515120000'' \<mapsto> staged_rows)\<rparr>"
  have q1: "insert_statement example_env ?staged ''avian_cases''
       ''temp_insert_20230515120000'' (PyDataFrame staged_rows)
       = Inl (ValueError AmbiguousTruthValue)"
    by (rule load_storage_to_database_propagates
          [THEN conjunct2, THEN conjunct2, THEN conjunct2, THEN conjunct2, THEN conjunct2,
           THEN conjunct2, THEN conjunct2, THEN conjunct2, THEN conjunct2, THEN conjunct1,
           THEN mp]) simp
  have b3: "insert_dataframe example_env example_client ''avian_cases'' (PyDataFrame staged_rows)
       (Some staged_rows)
       = (Inl (ValueError AmbiguousTruthValue), example_client\<lparr>conn := ?staged\<rparr>)"
    by (rule load_storage_to_database_propagates
          [where k = 1,
           THEN conjunct2, THEN conjunct2, THEN conjunct2, THEN conjunct2, THEN conjunct2,
           THEN conjunct2, THEN conjunct1, THEN mp])
       (simp add: q1 example_writable faulty_env_simps,
        simp add: example_env_def example_client_def staged_rows_def example_table_def
          execute_def create_temporary_table_def select_count_def)
  have a4: "load_storage_to_database example_env example_client
       ''raw'' ''avian_cases'' ''avian_cases''
       = insert_dataframe example_env example_client ''avian_cases'' (PyDataFrame staged_rows)
           (Some staged_rows)"
    by (rule load_storage_to_database_propagates
          [where uris = "[''s3://raw/avian_cases/data_1.parquet'']",
           THEN conjunct2, THEN conjunct2, THEN conjunct2, THEN conjunct1, THEN mp])
       (simp add: example_uris example_read df_empty_def staged_rows_def)
  have w4: "(\<exists>db'. load_storage_to_database example_env example_client
       ''raw'' ''avian_cases'' ''avian_cases''
     = (Inl (ValueError AmbiguousTruthValue), db'))"
    using a4 b3 by simp
  have w5: "insert_dataframe (example_env\<lparr>scan_all_frames := False\<rparr>) example_client
       ''avian_cases'' (PyBool True) (Some new_rows)
     = (Inl (CatalogException ''df''), example_client)"
    by (rule load_storage_to_database_propagates
          [THEN conjunct2, THEN conjunct2, THEN conjunct2, THEN conjunct2, THEN conjunct1,
           THEN mp])
       (simp add: example_writable execute_def create_temporary_table_def example_env_def)
  have w6: "insert_dataframe (faulty_env AtCountBefore (IOException ''closed'')) example_client
       ''avian_cases'' (PyBool True) (Some new_rows)
     = (Inl (IOException ''closed''), example_client\<lparr>conn := staged_conn\<rparr>)"
    by (rule load_storage_to_database_propagates
          [THEN conjunct2, THEN conjunct2, THEN conjunct2, THEN conjunct2, THEN conjunct2,
           THEN conjunct1, THEN mp])
       (simp add: ev)
  have s7: "insert_statement (faulty_env AtTableColumns (IOException ''closed'')) staged_conn
       ''avian_cases'' ''temp_insert_20230515120000'' (PyBool True) = Inl (IOException ''closed'')"
    by (rule load_storage_to_database_propagates
          [where fl = True,
           THEN conjunct2, THEN conjunct2, THEN conjunct2, THEN conjunct2, THEN conjunct2,
           THEN conjunct2, THEN conjunct2, THEN conjunct2, THEN conjunct2, THEN conjunct2,
           THEN conjunct1, THEN mp])
       (simp add: ev)
  have w7: "insert_dataframe (faulty_env AtTableColumns (IOException ''closed'')) example_client
       ''avian_cases'' (PyBool True) (Some new_rows)
     = (Inl (IOException ''closed''), example_client\<lparr>conn := staged_conn\<rparr>)"
    by (rule load_storage_to_database_propagates
          [where k = 1,
           THEN conjunct2, THEN conjunct2, THEN conjunct2, THEN conjunct2, THEN conjunct2,
           THEN conjunct2, THEN conjunct1, THEN mp])
       (simp add: ev s7)
  have s8: "insert_statement example_env staged_conn
       ''avian_cases'' ''temp_insert_20230515120000'' (PyBool True) = Inl (BinderException ''case_id'')"
    by (rule load_storage_to_database_propagates
          [where pk = "''case_id''" and cols = "[''case_id'', ''species'']",
           THEN conjunct2, THEN conjunct2, THEN conjunct2, THEN conjunct2, THEN conjunct2,
           THEN conjunct2, THEN conjunct2, THEN conjunct2, THEN conjunct2, THEN conjunct2,
           THEN conjunct2, THEN conjunct1, THEN mp])
       (simp add: ev)
  have w8: "insert_dataframe example_env example_client
       ''avian_cases'' (PyBool True) (Some new_rows)
     = (Inl (BinderException ''case_id''), example_client\<lparr>conn := staged_conn\<rparr>)"
    by (rule load_storage_to_database_propagates
          [where k = 1,
           THEN conjunct2, THEN conjunct2, THEN conjunct2, THEN conjunct2, THEN conjunct2,
           THEN conjunct2, THEN conjunct1, THEN mp])
       (simp add: ev s8)
  have s9: "insert_statement (faulty_env AtInsert (IOException ''closed'')) staged_conn
       ''avian_cases'' ''temp_insert_20230515120000'' (PyBool False) = Inl (IOException ''closed'')"
    by (rule load_storage_to_database_propagates
          [where fl = False and cols = "[''case_id'', ''species'']",
           THEN conjunct2, THEN conjunct2, THEN conjunct2, THEN conjunct2, THEN conjunct2,
           THEN conjunct2, THEN conjunct2, THEN conjunct2, THEN conjunct2, THEN conjunct2,
           THEN conjunct2, THEN conjunct2, THEN conjunct1, THEN mp])
       (simp add: ev)
  have w9: "insert_dataframe (faulty_env AtInsert (IOException ''closed'')) example_client
       ''avian_cases'' (PyBool False) (Some new_rows)
     = (Inl (IOException ''closed''), example_client\<lparr>conn := staged_conn\<rparr>)"
    by (rule load_storage_to_database_propagates
          [where k = 1,
           THEN conjunct2, THEN conjunct2, THEN conjunct2, THEN conjunct2, THEN conjunct2,
           THEN conjunct2, THEN conjunct1, THEN mp])
       (simp add: ev s9)
  have o10: "insert_statement (faulty_env AtDropTemp (IOException ''closed'')) staged_conn
       ''avian_cases'' ''temp_insert_20230515120000'' (PyBool False) = Inr inserted_conn"
    by (simp add: insert_statement_def ev)
  have w10: "insert_dataframe (faulty_env AtDropTemp (IOException ''closed'')) example_client
       ''avian_cases'' (PyBool False) (Some new_rows)
     = (Inl (IOException ''closed''), example_client\<lparr>conn := inserted_conn\<rparr>)"
    by (rule load_storage_to_database_propagates
          [where k = 1 and ?c1.0 = staged_conn,
           THEN conjunct2, THEN conjunct2, THEN conjunct2, THEN conjunct2, THEN conjunct2,
           THEN conjunct2, THEN conjunct2, THEN conjunct1, THEN mp])
       (simp add: ev o10)
  have o11: "insert_statement (faulty_env AtCountAfter (IOException ''closed'')) staged_conn
       ''avian_cases'' ''temp_insert_20230515120000'' (PyBool False) = Inr inserted_conn"
    by (simp add: insert_statement_def ev)
  have w11: "insert_dataframe (faulty_env AtCountAfter (IOException ''closed'')) example_client
       ''avian_cases'' (PyBool False) (Some new_rows)
     = (Inl (IOException ''closed''), example_client\<lparr>conn := final_conn\<rparr>)"
    by (rule load_storage_to_database_propagates
          [where k = 1 and ?c1.0 = staged_conn and ?c2.0 = inserted_conn,
           THEN conjunct2, THEN conjunct2, THEN conjunct2, THEN conjunct2, THEN conjunct2,
           THEN conjunct2, THEN conjunct2, THEN conjunct2, THEN conjunct1, THEN mp])
       (simp add: ev o11)
  have w12: "load_storage_to_database (example_env\<lparr>list_objects := (\<lambda>b p. Inr [])\<rparr>) example_client
       ''raw'' ''avian_cases'' ''avian_cases''
     = (Inr 0, example_client)"
    by (simp add: load_storage_to_database_def get_parquet_uris_def list_parquet_files_def)
  have w13: "(\<exists>us. get_parquet_uris (example_env\<lparr>list_objects := (\<lambda>b p. Inr [])\<rparr>)
              ''raw'' ''avian_cases'' = Inr us
        \<and> (us = [] \<or> (\<exists>d. read_external_parquet
                 (example_env\<lparr>list_objects := (\<lambda>b p. Inr [])\<rparr>)
                 (conn example_client) us ''avian_cases'' = Inr d
               \<and> (df_empty d \<or> read_only example_client))))"
    using load_storage_to_database_propagates
          [THEN conjunct2, THEN conjunct2, THEN conjunct2, THEN conjunct2, THEN conjunct2,
           THEN conjunct2, THEN conjunct2, THEN conjunct2, THEN conjunct2, THEN conjunct2,
           THEN conjunct2, THEN conjunct2, THEN conjunct2, THEN conjunct1, THEN mp,
           OF w12] by simp
  have w16: "insert_statement example_env staged_conn
       ''avian_cases'' ''temp_insert_20230515120000'' (PyBool False) = Inr inserted_conn"
    by (simp add: insert_statement_def ev)
  have w14: "insert_dataframe example_env example_client
       ''avian_cases'' (PyBool False) (Some new_rows)
     = (Inr 2, example_client\<lparr>conn := final_conn\<rparr>)"
    by (simp add: insert_dataframe_def w16 ev)
  have w15: "(\<exists>c1 k c2 c3 k'.
        create_temporary_table (conn example_client) (''temp_insert_'' @ now example_env)
          (if scan_all_frames example_env then Some new_rows else None) = Inr c1
      \<and> select_count c1 ''avian_cases'' = Inr k
      \<and> insert_statement example_env c1 ''avian_cases'' (''temp_insert_'' @ now example_env)
            (PyBool False) = Inr c2
      \<and> drop_table c2 (''temp_insert_'' @ now example_env) = Inr c3
      \<and> select_count c3 ''avian_cases'' = Inr k'
      \<and> (2::int) = int k' - int k
      \<and> example_client\<lparr>conn := final_conn\<rparr> = example_client\<lparr>conn := c3\<rparr>)"
    using load_storage_to_database_propagates
          [THEN conjunct2, THEN conjunct2, THEN conjunct2, THEN conjunct2, THEN conjunct2,
           THEN conjunct2, THEN conjunct2, THEN conjunct2, THEN conjunct2, THEN conjunct2,
           THEN conjunct2, THEN conjunct2, THEN conjunct2, THEN conjunct2, THEN conjunct1,
           THEN mp, OF conjI, OF example_writable w14]
    by simp
  have w17: "(\<exists>fl cols. py_truth (PyBool False) = Inr fl
        \<and> get_table_columns example_env staged_conn ''avian_cases'' = Inr cols
        \<and> fault example_env AtTableColumns = None \<and> fault example_env AtInsert = None
        \<and> (insert_select staged_conn ''avian_cases'' cols ''temp_insert_20230515120000''
               = Inr inserted_conn
             \<or> (\<exists>pk. fl \<and> get_primary_key example_env staged_conn ''avian_cases'' = Some pk
                   \<and> pk \<noteq> []
                   \<and> insert_select_anti_join staged_conn ''avian_cases'' cols
                        ''temp_insert_20230515120000'' pk
                        = Inr inserted_conn)))"
    by (rule load_storage_to_database_propagates
          [THEN conjunct2, THEN conjunct2, THEN conjunct2, THEN conjunct2, THEN conjunct2,
           THEN conjunct2, THEN conjunct2, THEN conjunct2, THEN conjunct2, THEN conjunct2,
           THEN conjunct2, THEN conjunct2, THEN conjunct2, THEN conjunct2, THEN conjunct2,
           THEN mp]) (rule w16)
  show ?thesis
    using w1 w2 w3 w4 w5 w6 w7 w8 w9 w10 w11 w12 w13 w14 w15 w16 w17 by blast
qed


lemma get_primary_key_faulty:
  "get_primary_key (faulty_env AtPrimaryKey e) c table = None"
  by (simp add: get_primary_key_def execute_def faulty_env_simps)

text \<open>
  C5 as stated fails in two places. When the listing fails with an \<open>S3Error\<close>, the caller
  receives the \<open>S3Error\<close> itself and no \<open>SynchronizationError\<close> that wraps it. When the
  primary-key lookup of \<open>insert_dataframe\<close> fails, the failure is swallowed: the call
  returns a count, and the two rows are appended.
\<close>

theorem load_storage_to_database_propagates_counterexample:
  "load_storage_to_database failing_env example_client ''raw'' ''avian_cases'' ''avian_cases''
     = (Inl (S3Error ''NoSuchBucket''), example_client)
   \<and> S3Error ''NoSuchBucket'' \<noteq> SynchronizationError (S3Error ''NoSuchBucket'')
   \<and> fault (faulty_env AtPrimaryKey (IOException ''closed'')) AtPrimaryKey
       = Some (IOException ''closed'')
   \<and> insert_dataframe (faulty_env AtPrimaryKey (IOException ''closed'')) example_client
         ''avian_cases'' (PyBool True) (Some new_rows)
       = (Inr 2, example_client\<lparr>conn := final_conn\<rparr>)"
proof (intro conjI)
  show "load_storage_to_database failing_env example_client ''raw'' ''avian_cases''
      ''avian_cases'' = (Inl (S3Error ''NoSuchBucket''), example_client)"
    by (simp add: load_storage_to_database_def get_parquet_uris_def list_parquet_files_def
        failing_env_def)
  show "S3Error ''NoSuchBucket'' \<noteq> SynchronizationError (S3Error ''NoSuchBucket'')"
    by simp
  show "fault (faulty_env AtPrimaryKey (IOException ''closed'')) AtPrimaryKey
       = Some (IOException ''closed'')"
    by (simp add: faulty_env_simps)
  show "insert_dataframe (faulty_env AtPrimaryKey (IOException ''closed'')) example_client
         ''avian_cases'' (PyBool True) (Some new_rows)
       = (Inr 2, example_client\<lparr>conn := final_conn\<rparr>)"
    by (simp add: insert_dataframe_def insert_statement_def get_primary_key_faulty
        faulty_env_simps example_writable example_create example_count_before example_columns
        example_insert_select example_drop example_count_after execute_no_fault)
qed

section \<open>Further facts about inserting\<close>

lemma resolve_column_single:
  "c \<in> set a \<Longrightarrow> resolve_column [a] c = Inr 0"
  by (simp add: resolve_column_def upt_rec [of 0] upt_rec [of 1] upt_rec [of "Suc 0"])

lemma resolve_columns_single:
  "set cs \<subseteq> set a \<Longrightarrow> resolve_columns [a] cs = Inr (map (\<lambda>c. 0) cs)"
  by (induction cs) (simp_all add: resolve_column_single)

lemma select_count_Inr:
  "select_count c table = Inr n \<Longrightarrow>
   \<exists>t. tables c table = Some t \<and> n = length (table_rows t)"
  by (cases "tables c table") (simp_all add: select_count_def)

lemma drop_table_tables: "drop_table c temp = Inr c' \<Longrightarrow> tables c' = tables c"
  by (auto simp: drop_table_def split: if_splits)

text \<open>
  Whenever \<open>insert_dataframe\<close> returns on a writable client, the returned integer is the
  row count of the table after the call minus its row count before the call.
\<close>

lemma insert_dataframe_returns_count_difference:
  assumes "\<not> read_only self"
    and "insert_dataframe env self table flag caller_df = (Inr n, self')"
  shows "\<exists>t t'. tables (conn self) table = Some t \<and> tables (conn self') table = Some t'
           \<and> n = int (length (table_rows t')) - int (length (table_rows t))"
proof -
  let ?temp = "''temp_insert_'' @ now env"
  let ?found = "if scan_all_frames env then caller_df else None"
  from assms obtain c1 where c1: "execute (fault env) AtCreateTemp
        (create_temporary_table (conn self) ?temp ?found) = Inr c1"
    by (auto simp: insert_dataframe_def Let_def split: sum.splits)
  from assms c1 obtain k where k: "execute (fault env) AtCountBefore (select_count c1 table) = Inr k"
    by (auto simp: insert_dataframe_def Let_def split: sum.splits)
  from assms c1 k obtain c2 where c2: "insert_statement env c1 table ?temp flag = Inr c2"
    by (auto simp: insert_dataframe_def Let_def split: sum.splits)
  from assms c1 k c2 obtain c3 where c3: "execute (fault env) AtDropTemp (drop_table c2 ?temp) = Inr c3"
    by (auto simp: insert_dataframe_def Let_def split: sum.splits)
  from assms c1 k c2 c3 obtain k' where k': "execute (fault env) AtCountAfter (select_count c3 table) = Inr k'"
    by (auto simp: insert_dataframe_def Let_def split: sum.splits)
  from assms c1 k c2 c3 k' have r: "n = int k' - int k" "self' = self\<lparr>conn := c3\<rparr>"
    by (auto simp: insert_dataframe_def Let_def)
  have tb: "tables c1 = tables (conn self)"
    using execute_Inr_D [OF c1] by (rule create_temporary_table_tables)
  obtain t where t: "tables c1 table = Some t" "k = length (table_rows t)"
    using select_count_Inr [OF execute_Inr_D [OF k]] by blast
  obtain t' where t': "tables c3 table = Some t'" "k' = length (table_rows t')"
    using select_count_Inr [OF execute_Inr_D [OF k']] by blast
  show ?thesis using r t t' tb by simp
qed


lemma no_primary_key_filter: "\<not> has_primary_key t \<Longrightarrow> filter snd (table_info t) = []"
  by (simp add: has_primary_key_def list_ex_iff filter_empty_conv)

lemma get_primary_key_None:
  "tables c table = Some t \<Longrightarrow> \<not> has_primary_key t \<Longrightarrow> get_primary_key env c table = None"
  by (cases "fault env AtPrimaryKey")
     (simp_all add: get_primary_key_def execute_def pragma_table_info_def no_primary_key_filter)

lemma insert_select_appends:
  assumes "temp_tables c temp = Some df" and "tables c table = Some t"
    and "\<not> has_primary_key t" and "set (column_names t) \<subseteq> set (df_columns df)"
  shows "insert_select c table (column_names t) temp =
           Inr (c\<lparr>tables := (tables c)(table \<mapsto>
                  t\<lparr>table_rows := table_rows t
                       @ map (\<lambda>r. map (cell_of (df_columns df) r) (column_names t))
                           (df_rows df)\<rparr>)\<rparr>)"
  using assms
  by (simp add: insert_select_def resolve_columns_single insert_rows_def constraint_ok_def)

text \<open>
  When the engine scans all calling frames and so finds the \<open>df\<close> of the caller, and no
  statement fails for outside reasons: without a primary key on the table all staged rows
  are appended, each reduced to the columns of the table, and their number is returned,
  whatever the flag.
\<close>

lemma insert_dataframe_no_primary_key_appends:
  assumes "\<not> read_only self" and "fault env = (\<lambda>s. None)" and "scan_all_frames env"
    and "tables (conn self) table = Some t" and "\<not> has_primary_key t"
    and "temp_tables (conn self) (''temp_insert_'' @ now env) = None"
    and "df_columns df \<noteq> []" and "set (column_names t) \<subseteq> set (df_columns df)"
  shows "\<exists>self'. insert_dataframe env self table (PyBool flag) (Some df)
                   = (Inr (int (length (df_rows df))), self')
           \<and> tables (conn self') table =
               Some (t\<lparr>table_rows := table_rows t
                         @ map (\<lambda>r. map (cell_of (df_columns df) r) (column_names t))
                             (df_rows df)\<rparr>)"
proof -
  let ?temp = "''temp_insert_'' @ now env"
  let ?c1 = "(conn self)\<lparr>temp_tables := (temp_tables (conn self))(?temp \<mapsto> df)\<rparr>"
  let ?t' = "t\<lparr>table_rows := table_rows t
                @ map (\<lambda>r. map (cell_of (df_columns df) r) (column_names t)) (df_rows df)\<rparr>"
  let ?c2 = "?c1\<lparr>tables := (tables ?c1)(table \<mapsto> ?t')\<rparr>"
  have 1: "execute (fault env) AtCreateTemp
             (create_temporary_table (conn self) ?temp (if scan_all_frames env then Some df else None))
           = Inr ?c1"
    using assms(2,3,6,7) by (simp add: execute_def create_temporary_table_def)
  have 2: "execute (fault env) AtCountBefore (select_count ?c1 table) = Inr (length (table_rows t))"
    using assms(2,4) by (simp add: execute_def select_count_def)
  have pk: "get_primary_key env ?c1 table = None"
    using assms(4,5) by (simp add: get_primary_key_None)
  have cols: "get_table_columns env ?c1 table = Inr (column_names t)"
    using assms(2,4)
    by (simp add: get_table_columns_def execute_def pragma_table_info_def column_names_def)
  have ins: "insert_select ?c1 table (column_names t) ?temp = Inr ?c2"
    using insert_select_appends [of ?c1 ?temp df table t] assms(4,5,8) by simp
  have 3: "insert_statement env ?c1 table ?temp (PyBool flag) = Inr ?c2"
    using assms(2) pk cols ins by (simp add: insert_statement_def execute_def)
  have 4: "\<exists>c3. execute (fault env) AtDropTemp (drop_table ?c2 ?temp) = Inr c3
              \<and> tables c3 = tables ?c2"
    using assms(2) by (simp add: execute_def drop_table_def)
  then obtain c3 where c3: "execute (fault env) AtDropTemp (drop_table ?c2 ?temp) = Inr c3"
    and tb: "tables c3 = tables ?c2" by blast
  have 5: "execute (fault env) AtCountAfter (select_count c3 table) = Inr (length (table_rows ?t'))"
    using assms(2) tb by (simp add: execute_def select_count_def)
  have "insert_dataframe env self table (PyBool flag) (Some df)
          = (Inr (int (length (table_rows ?t')) - int (length (table_rows t))), self\<lparr>conn := c3\<rparr>)"
    using assms(1,3) 1 2 3 c3 5 by (simp add: insert_dataframe_def Let_def)
  then show ?thesis using tb by simp
qed

text \<open>
  When the engine scans only the frame that calls \<open>execute\<close>, the name \<open>df\<close> of the first
  statement of \<open>insert_dataframe\<close> does not resolve: every call on a writable client
  raises there, with or without a primary key on the table, and so does the run of the
  example.
\<close>

lemma insert_dataframe_current_frame_only_raises:
  assumes "\<not> read_only self" and "\<not> scan_all_frames env"
  shows "\<exists>e. insert_dataframe env self table flag caller_df = (Inl e, self)"
proof -
  have "create_temporary_table (conn self) (''temp_insert_'' @ now env) None
          = Inl (CatalogException ''df'')"
    by (simp add: create_temporary_table_def)
  then obtain e where "execute (fault env) AtCreateTemp
      (create_temporary_table (conn self) (''temp_insert_'' @ now env) None) = Inl e"
    using execute_isl by blast
  with assms show ?thesis by (simp add: insert_dataframe_def Let_def)
qed

lemma example_first_run_current_frame_only:
  "fst (load_storage_to_database (example_env\<lparr>scan_all_frames := False\<rparr>) example_client
          ''raw'' ''avian_cases'' ''avian_cases'') = Inl (CatalogException ''df'')"
  by code_simp

end
